theory Spec2Isabelle
  imports Main "HOL-Library.Sublist"
begin

section \<open>The training supervisor of train.py\<close>

text \<open>
  The script drives an external model handle \<open>t\<close>, dataset providers, benchmark tasks
  and a telemetry sink. None of them is part of the script, so each call to one of them
  is answered by an environment: a function of the history of everything the process
  has done so far, which either raises or returns. The script itself is a program that
  reads the history and yields an outcome together with the events it emitted. Every
  statement below holds for all environments unless it names one.

  Left out of the model, as the script only passes them through: the command line
  parser and the reading of the configuration file (their results \<open>args\<close> and
  \<open>params\<close> are inputs of \<open>main\<close>, with every required key present and integral),
  the clock reads that only feed the two timing messages, the progress bar around the
  validation batches, and the configuration keys \<open>layers\<close>, \<open>d_model\<close>, \<open>n_heads\<close>,
  \<open>n_vocab\<close> and \<open>norm\<close>, which are read and never used. \<open>print\<close> is taken not
  to raise, and an interrupt arrives inside an external call.
\<close>

subsection \<open>Exceptions and outcomes\<close>

text \<open>
  Python's exception hierarchy as far as the handlers of the script tell it apart:
  \<open>except Exception\<close> (line 72) catches \<open>PyException\<close> only, \<open>except KeyboardInterrupt\<close>
  (line 157) catches \<open>KeyboardInterrupt\<close> only, and the bare \<open>except\<close> (line 159) catches
  everything else too, a \<open>BaseExn\<close> such as SystemExit included.
\<close>

datatype exn = KeyboardInterrupt | PyException string | BaseExn string

fun is_Exception :: "exn \<Rightarrow> bool" where
  "is_Exception (PyException _) = True"
| "is_Exception _ = False"

text \<open>\<open>Running\<close>: the loop was still running when the fuel of the model ran out.\<close>

datatype 'a result = Returns 'a | Raises exn | Running

subsection \<open>Inputs\<close>

record args =
  tpu :: string
  tpu_region :: string
  preemptible :: bool
  config :: string
  new :: bool

record params =
  name :: string
  bucket :: string
  model_dir :: string
  gradient_accumulation_steps :: "int option"
  per_replica_batch :: int
  tpu_size :: int
  cores_per_replica :: int
  seq :: int
  val_batches :: int
  val_every :: int
  ckpt_every :: int
  keep_every :: int
  pe :: string
  train_set :: string
  val_set :: "(string \<times> string) list"

subsection \<open>External calls and events\<close>

datatype ds = TrainSet | ValSet string

datatype task = Lambada | Winogrande | PIQA | HellaSwag

text \<open>
  The arguments of \<open>t.save\<close>. A keyword the call site does not pass is \<open>None\<close>.
  Values of type \<open>'v\<close> are Python objects the script never inspects (batches, losses,
  cursor states); \<open>'v option\<close> is such a value where the script tests it against
  Python's \<open>None\<close>.
\<close>

record 'v save_args =
  sv_step :: int
  sv_bucket :: string
  sv_path :: string
  sv_aux :: "(string \<times> 'v option) list option"
  sv_init :: bool
  sv_overwrite :: "bool option"
  sv_delete_old :: "bool option"

datatype 'v request =
    Input_prompt
  | Build_model
  | Save "'v save_args"
  | Load string string
  | New_inputs ds string "int list" int "'v option"
  | New_task task int "int option"
  | Get_samples ds
  | Get_state ds
  | Sample_once ds
  | Next_sample ds
  | Train 'v
  | Eval 'v
  | Task_run task int
  | Wandb_init
  | Wandb_log "(string \<times> 'v) list" int

datatype 'v msg =
    Starting_from_scratch string string string
  | Save_failed exn
  | Restore_failed
  | Train_compiled
  | Eval_compiled
  | Validation_loss int string 'v
  | Task_results "(string \<times> 'v) list"

text \<open>An event is an external call with what it raised, if anything, or a printed line.\<close>

datatype 'v event = Call "'v request" "exn option" | Print "'v msg"

text \<open>
  The environment: one oracle for each callee, which is given the history and the
  request and either raises or returns the callee's result. \<open>np_mean\<close> is
  \<open>np.array(xs).mean()\<close>, a function of its argument alone.
\<close>

record 'v env =
  input_prompt :: "'v event list \<Rightarrow> 'v request \<Rightarrow> exn + unit"
  build_model :: "'v event list \<Rightarrow> 'v request \<Rightarrow> exn + unit"
  t_save :: "'v event list \<Rightarrow> 'v request \<Rightarrow> exn + unit"
  t_load :: "'v event list \<Rightarrow> 'v request \<Rightarrow> exn + (int \<times> (string \<times> 'v option) list)"
  new_inputs :: "'v event list \<Rightarrow> 'v request \<Rightarrow> exn + unit"
  new_task :: "'v event list \<Rightarrow> 'v request \<Rightarrow> exn + unit"
  get_samples :: "'v event list \<Rightarrow> 'v request \<Rightarrow> exn + 'v"
  get_state :: "'v event list \<Rightarrow> 'v request \<Rightarrow> exn + 'v option"
  sample_once :: "'v event list \<Rightarrow> 'v request \<Rightarrow> exn + unit"
  next_sample :: "'v event list \<Rightarrow> 'v request \<Rightarrow> exn + 'v option"
  t_train :: "'v event list \<Rightarrow> 'v request \<Rightarrow> exn + ('v \<times> 'v)"
  t_eval :: "'v event list \<Rightarrow> 'v request \<Rightarrow> exn + 'v"
  task_run :: "'v event list \<Rightarrow> 'v request \<Rightarrow> exn + (string \<times> 'v) list"
  wandb_init :: "'v event list \<Rightarrow> 'v request \<Rightarrow> exn + unit"
  wandb_log :: "'v event list \<Rightarrow> 'v request \<Rightarrow> exn + unit"
  np_mean :: "'v list \<Rightarrow> 'v"

subsection \<open>Programs\<close>

text \<open>
  A program reads the history and gives its outcome and the events it added, oldest
  first. \<open>andthen\<close> is sequencing: an exception or exhausted fuel ends the sequence.
\<close>

type_synonym ('v, 'a) prog = "'v event list \<Rightarrow> 'a result \<times> 'v event list"

definition ret :: "'a \<Rightarrow> ('v, 'a) prog" where
  "ret x = (\<lambda>tr. (Returns x, []))"

definition raise :: "exn \<Rightarrow> ('v, 'a) prog" where
  "raise e = (\<lambda>tr. (Raises e, []))"

definition spin :: "('v, 'a) prog" where
  "spin = (\<lambda>tr. (Running, []))"

definition emit :: "'v msg \<Rightarrow> ('v, unit) prog" where
  "emit m = (\<lambda>tr. (Returns (), [Print m]))"

definition call ::
    "'v request \<Rightarrow> ('v event list \<Rightarrow> 'v request \<Rightarrow> exn + 'a) \<Rightarrow> ('v, 'a) prog" where
  "call rq f = (\<lambda>tr. case f tr rq of
       Inl e \<Rightarrow> (Raises e, [Call rq (Some e)])
     | Inr x \<Rightarrow> (Returns x, [Call rq None]))"

definition andthen :: "('v, 'a) prog \<Rightarrow> ('a \<Rightarrow> ('v, 'b) prog) \<Rightarrow> ('v, 'b) prog" where
  "andthen m f = (\<lambda>tr. case m tr of
       (Returns x, es) \<Rightarrow> (case f x (tr @ es) of (r, es') \<Rightarrow> (r, es @ es'))
     | (Raises e, es) \<Rightarrow> (Raises e, es)
     | (Running, es) \<Rightarrow> (Running, es))"

text \<open>\<open>try: m except Exception as e: h e\<close>.\<close>

definition try_except_Exception ::
    "('v, 'a) prog \<Rightarrow> (exn \<Rightarrow> ('v, 'a) prog) \<Rightarrow> ('v, 'a) prog" where
  "try_except_Exception m h = (\<lambda>tr. case m tr of
       (Raises e, es) \<Rightarrow>
         (if is_Exception e then (case h e (tr @ es) of (r, es') \<Rightarrow> (r, es @ es'))
          else (Raises e, es))
     | (r, es) \<Rightarrow> (r, es))"

text \<open>\<open>for x in xs: body x\<close>.\<close>

primrec foreach :: "'x list \<Rightarrow> ('x \<Rightarrow> ('v, unit) prog) \<Rightarrow> ('v, unit) prog" where
  "foreach [] body = ret ()"
| "foreach (x # xs) body = andthen (body x) (\<lambda>_. foreach xs body)"

text \<open>Python's \<open>//\<close> and \<open>%\<close> on integers: floored, and an error on a zero divisor.\<close>

definition py_floordiv :: "int \<Rightarrow> int \<Rightarrow> ('v, int) prog" where
  "py_floordiv a b = (if b = 0 then raise (PyException ''ZeroDivisionError'') else ret (a div b))"

definition py_mod :: "int \<Rightarrow> int \<Rightarrow> ('v, int) prog" where
  "py_mod a b = (if b = 0 then raise (PyException ''ZeroDivisionError'') else ret (a mod b))"

text \<open>\<open>aux.get(key, None)\<close>.\<close>

definition dict_get :: "(string \<times> 'v option) list \<Rightarrow> string \<Rightarrow> 'v option" where
  "dict_get d k = (case map_of d k of None \<Rightarrow> None | Some v \<Rightarrow> v)"

subsection \<open>main, lines 68 to 78: initial save, or load\<close>

definition initial_save :: "params \<Rightarrow> bool \<Rightarrow> 'v save_args" where
  "initial_save prm clean_start =
     \<lparr>sv_step = 0, sv_bucket = bucket prm, sv_path = model_dir prm, sv_aux = None,
      sv_init = True, sv_overwrite = Some clean_start, sv_delete_old = None\<rparr>"

definition load_instead :: "'v env \<Rightarrow> params \<Rightarrow> exn \<Rightarrow> ('v, int \<times> 'v option) prog" where
  "load_instead env prm e =
     andthen (emit (Save_failed e)) (\<lambda>_.
     andthen (call (Load (bucket prm) (model_dir prm)) (t_load env)) (\<lambda>(step, aux).
     let train_load_restore = dict_get aux ''train_loader'' in
     andthen (if train_load_restore = None then emit Restore_failed else ret ()) (\<lambda>_.
     ret (step, train_load_restore))))"

definition save_or_load :: "'v env \<Rightarrow> params \<Rightarrow> bool \<Rightarrow> ('v, int \<times> 'v option) prog" where
  "save_or_load env prm clean_start =
     try_except_Exception
       (andthen (call (Save (initial_save prm clean_start))
                   (t_save env)) (\<lambda>_.
        ret (0, None)))
       (load_instead env prm)"

subsection \<open>main, lines 111 to 149: one iteration of the step loop\<close>

definition train_step :: "'v env \<Rightarrow> int \<Rightarrow> ('v, unit) prog" where
  "train_step env step =
     andthen (call (Get_samples TrainSet) (get_samples env)) (\<lambda>b.
     andthen (call (Train b) (t_train env)) (\<lambda>(loss, last_loss).
     call (Wandb_log [(''train/loss'', loss), (''train/last_loss'', last_loss)] step)
       (wandb_log env)))"

definition checkpoint_save :: "params \<Rightarrow> int \<Rightarrow> 'v option \<Rightarrow> bool \<Rightarrow> 'v save_args" where
  "checkpoint_save prm step state del =
     \<lparr>sv_step = step, sv_bucket = bucket prm, sv_path = model_dir prm,
      sv_aux = Some [(''train_loader'', state)],
      sv_init = False, sv_overwrite = None, sv_delete_old = Some del\<rparr>"

definition checkpoint :: "'v env \<Rightarrow> params \<Rightarrow> int \<Rightarrow> ('v, unit) prog" where
  "checkpoint env prm step =
     andthen (py_mod step (ckpt_every prm)) (\<lambda>r.
     if r = 0 \<and> step \<noteq> 0 then
       andthen (call (Get_state TrainSet) (get_state env)) (\<lambda>state.
       andthen (py_mod step (keep_every prm)) (\<lambda>k.
       call (Save (checkpoint_save prm step state (k \<noteq> 0)))
         (t_save env)))
     else ret ())"

text \<open>
  \<open>zip(val_set.sample_once(), range(val_batches))\<close>, drained by the loop of line 124:
  \<open>zip\<close> asks the generator first, so when the range is exhausted one more batch has
  been drawn and is dropped. The first argument is what is left of the range.
\<close>

primrec val_losses :: "nat \<Rightarrow> 'v env \<Rightarrow> string \<Rightarrow> 'v list \<Rightarrow> ('v, 'v list) prog" where
  "val_losses 0 env nm acc =
     andthen (call (Next_sample (ValSet nm)) (next_sample env)) (\<lambda>_.
     ret acc)"
| "val_losses (Suc n) env nm acc =
     andthen (call (Next_sample (ValSet nm)) (next_sample env)) (\<lambda>i.
     case i of
       None \<Rightarrow> ret acc
     | Some b \<Rightarrow>
         andthen (call (Eval b) (t_eval env)) (\<lambda>l.
         val_losses n env nm (acc @ [l])))"

definition validate :: "'v env \<Rightarrow> params \<Rightarrow> int \<Rightarrow> string \<Rightarrow> ('v, unit) prog" where
  "validate env prm step nm =
     andthen (call (Sample_once (ValSet nm)) (sample_once env)) (\<lambda>_.
     andthen (val_losses (nat (val_batches prm)) env nm []) (\<lambda>val_loss.
     andthen (emit (Validation_loss step nm (np_mean env val_loss))) (\<lambda>_.
     call (Wandb_log [(''val/loss_'' @ nm, np_mean env val_loss)] step) (wandb_log env))))"

definition run_task :: "'v env \<Rightarrow> int \<Rightarrow> int \<Rightarrow> task \<Rightarrow> ('v, unit) prog" where
  "run_task env global_val_batch step tk =
     andthen (call (Task_run tk global_val_batch) (task_run env)) (\<lambda>results.
     andthen (call (Wandb_log results step) (wandb_log env)) (\<lambda>_.
     emit (Task_results results)))"

text \<open>Lines 122 to 131, and lines 133 to 147.\<close>

definition validation_losses :: "'v env \<Rightarrow> params \<Rightarrow> int \<Rightarrow> ('v, unit) prog" where
  "validation_losses env prm step = foreach (map fst (val_set prm)) (validate env prm step)"

definition benchmarks :: "'v env \<Rightarrow> int \<Rightarrow> int \<Rightarrow> ('v, unit) prog" where
  "benchmarks env global_val_batch step =
     andthen (run_task env global_val_batch step Lambada) (\<lambda>_.
     andthen (run_task env global_val_batch step Winogrande) (\<lambda>_.
     andthen (run_task env global_val_batch step PIQA) (\<lambda>_.
     run_task env global_val_batch step HellaSwag)))"

definition evaluation_round :: "'v env \<Rightarrow> params \<Rightarrow> int \<Rightarrow> int \<Rightarrow> ('v, unit) prog" where
  "evaluation_round env prm global_val_batch step =
     andthen (validation_losses env prm step) (\<lambda>_.
     benchmarks env global_val_batch step)"

definition evaluate :: "'v env \<Rightarrow> params \<Rightarrow> int \<Rightarrow> int \<Rightarrow> ('v, unit) prog" where
  "evaluate env prm global_val_batch step =
     andthen (py_mod step (val_every prm)) (\<lambda>r.
     if r = 0 then evaluation_round env prm global_val_batch step else ret ())"

definition loop_body :: "'v env \<Rightarrow> params \<Rightarrow> int \<Rightarrow> int \<Rightarrow> ('v, int) prog" where
  "loop_body env prm global_val_batch step =
     andthen (train_step env step) (\<lambda>_.
     andthen (checkpoint env prm step) (\<lambda>_.
     andthen (evaluate env prm global_val_batch step) (\<lambda>_.
     ret (step + 1))))"

text \<open>
  \<open>while True\<close> of line 111. The loop has no exit but an exception; the first argument
  bounds the iterations the model follows, and \<open>Running\<close> is the outcome when they are
  used up.
\<close>

primrec step_loop :: "nat \<Rightarrow> 'v env \<Rightarrow> params \<Rightarrow> int \<Rightarrow> int \<Rightarrow> ('v, unit) prog" where
  "step_loop 0 env prm global_val_batch step = spin"
| "step_loop (Suc n) env prm global_val_batch step =
     andthen (loop_body env prm global_val_batch step) (\<lambda>step'.
     step_loop n env prm global_val_batch step')"

subsection \<open>main, lines 80 to 109: providers, tasks and the two warm-up calls\<close>

definition global_batch :: "params \<Rightarrow> ('v, int) prog" where
  "global_batch prm = py_floordiv (per_replica_batch prm * tpu_size prm) (cores_per_replica prm)"

definition make_datasets :: "'v env \<Rightarrow> params \<Rightarrow> 'v option \<Rightarrow> ('v, int) prog" where
  "make_datasets env prm train_load_restore =
     andthen (global_batch prm) (\<lambda>b.
     andthen (call (New_inputs TrainSet (''data/'' @ train_set prm)
                     [case gradient_accumulation_steps prm of None \<Rightarrow> 1 | Some g \<Rightarrow> g, b]
                     (seq prm) train_load_restore)
                (new_inputs env)) (\<lambda>_.
     andthen (global_batch prm) (\<lambda>global_val_batch.
     andthen (foreach (val_set prm) (\<lambda>(k, v).
                call (New_inputs (ValSet k) (''data/'' @ v) [global_val_batch] (seq prm) None)
                  (new_inputs env))) (\<lambda>_.
     ret global_val_batch))))"

definition make_tasks :: "'v env \<Rightarrow> params \<Rightarrow> ('v, unit) prog" where
  "make_tasks env prm =
     andthen (call (New_task Lambada (seq prm) None) (new_task env)) (\<lambda>_.
     andthen (call (New_task Winogrande (seq prm) None) (new_task env)) (\<lambda>_.
     andthen (call (New_task PIQA (seq prm) None) (new_task env)) (\<lambda>_.
     call (New_task HellaSwag (seq prm) (Some 2560)) (new_task env))))"

definition warm_up_eval :: "'v env \<Rightarrow> string \<Rightarrow> ('v, unit) prog" where
  "warm_up_eval env nm =
     andthen (call (Get_samples (ValSet nm)) (get_samples env)) (\<lambda>b.
     andthen (call (Eval b) (t_eval env)) (\<lambda>_.
     ret ()))"

definition warm_up :: "'v env \<Rightarrow> params \<Rightarrow> ('v, unit) prog" where
  "warm_up env prm =
     andthen (call (Get_samples TrainSet) (get_samples env)) (\<lambda>b.
     andthen (call (Train b) (t_train env)) (\<lambda>_.
     andthen (emit Train_compiled) (\<lambda>_.
     andthen (foreach (map fst (val_set prm)) (warm_up_eval env)) (\<lambda>_.
     emit Eval_compiled))))"

subsection \<open>main and the supervisor loop\<close>

definition confirm_new :: "'v env \<Rightarrow> args \<Rightarrow> params \<Rightarrow> ('v, unit) prog" where
  "confirm_new env a prm =
     (if new a then
        andthen (emit (Starting_from_scratch (name prm) (bucket prm) (model_dir prm))) (\<lambda>_.
        call Input_prompt (input_prompt env))
      else ret ())"

definition check_pe :: "params \<Rightarrow> ('v, unit) prog" where
  "check_pe prm =
     (if pe prm \<in> set [''fixed'', ''rotary'', ''t5''] then ret ()
      else raise (PyException ''AssertionError''))"

text \<open>
  Everything of \<open>main\<close> before the step loop; it returns the step to start from and
  the global validation batch size.
\<close>

definition prepare :: "'v env \<Rightarrow> args \<Rightarrow> params \<Rightarrow> bool \<Rightarrow> ('v, int \<times> int) prog" where
  "prepare env a prm first =
     andthen (confirm_new env a prm) (\<lambda>_.
     let clean_start = new a \<and> first in
     andthen (check_pe prm) (\<lambda>_.
     andthen (call Build_model (build_model env)) (\<lambda>_.
     andthen (save_or_load env prm clean_start) (\<lambda>(step, train_load_restore).
     andthen (make_datasets env prm train_load_restore) (\<lambda>global_val_batch.
     andthen (make_tasks env prm) (\<lambda>_.
     andthen (warm_up env prm) (\<lambda>_.
     andthen (call Wandb_init (wandb_init env)) (\<lambda>_.
     ret (step, global_val_batch)))))))))"

definition main :: "nat \<Rightarrow> 'v env \<Rightarrow> args \<Rightarrow> params \<Rightarrow> bool \<Rightarrow> ('v, unit) prog" where
  "main n env a prm first =
     andthen (prepare env a prm first) (\<lambda>(step, global_val_batch).
     step_loop n env prm global_val_batch step)"

text \<open>
  Lines 152 to 161. The first argument bounds the attempts the model follows, the
  second the iterations of each attempt. \<open>break\<close> ends the script, which returns.
\<close>

primrec supervisor :: "nat \<Rightarrow> nat \<Rightarrow> 'v env \<Rightarrow> args \<Rightarrow> params \<Rightarrow> bool \<Rightarrow> ('v, unit) prog" where
  "supervisor 0 n env a prm first = spin"
| "supervisor (Suc k) n env a prm first = (\<lambda>tr.
     case main n env a prm first tr of
       (Running, es) \<Rightarrow> (Running, es)
     | (Raises KeyboardInterrupt, es) \<Rightarrow> (Returns (), es)
     | (_, es) \<Rightarrow> (case supervisor k n env a prm False (tr @ es) of (r, es') \<Rightarrow> (r, es @ es')))"

definition script :: "nat \<Rightarrow> nat \<Rightarrow> 'v env \<Rightarrow> args \<Rightarrow> params \<Rightarrow> ('v, unit) prog" where
  "script k n env a prm = supervisor k n env a prm True"

subsection \<open>What is observed of a run\<close>

fun save_of :: "'v event \<Rightarrow> 'v save_args option" where
  "save_of (Call (Save sa) _) = Some sa"
| "save_of _ = None"

definition saves :: "'v event list \<Rightarrow> 'v save_args list" where
  "saves es = List.map_filter save_of es"

fun task_of :: "'v event \<Rightarrow> task option" where
  "task_of (Call (Task_run tk _) _) = Some tk"
| "task_of _ = None"

definition tasks_run :: "'v event list \<Rightarrow> task list" where
  "tasks_run es = List.map_filter task_of es"






text \<open>A training batch that was handed out, a training call, an evaluation call.\<close>

fun train_draw :: "'v event \<Rightarrow> bool" where
  "train_draw (Call (Get_samples TrainSet) None) = True"
| "train_draw _ = False"

fun train_call :: "'v event \<Rightarrow> bool" where
  "train_call (Call (Train _) _) = True"
| "train_call _ = False"

fun eval_call :: "'v event \<Rightarrow> bool" where
  "eval_call (Call (Eval _) _) = True"
| "eval_call _ = False"

fun val_draw :: "'v event \<Rightarrow> string option" where
  "val_draw (Call (Get_samples (ValSet nm)) None) = Some nm"
| "val_draw _ = None"

fun printed :: "'v event \<Rightarrow> bool" where
  "printed (Print _) = True"
| "printed _ = False"

fun raised :: "'v event \<Rightarrow> bool" where
  "raised (Call _ (Some _)) = True"
| "raised _ = False"

subsection \<open>The collaborators as the specification describes them\<close>

text \<open>
  Modelled from the spec: the checkpoint storage behind \<open>t.save\<close> and \<open>t.load\<close>; the
  model handle is not part of train.py. An initial save fails when a checkpoint exists
  and overwrite is not authorized, and otherwise replaces whatever is stored by the
  checkpoint of step 0 (spec 4.2). Any other save writes the new checkpoint and, when
  \<open>delete_old\<close> is set, deletes the previous one once the new one is written (spec 4.4).
  Load gives the most recent checkpoint (spec 4.2). The store lists the checkpoints,
  oldest first, each a step and its auxiliary payload.
\<close>

type_synonym 'v ckpt = "int \<times> (string \<times> 'v option) list"

definition store_save :: "'v save_args \<Rightarrow> 'v ckpt list \<Rightarrow> exn + 'v ckpt list" where
  "store_save sa st =
     (let c = (sv_step sa, case sv_aux sa of None \<Rightarrow> [] | Some aux \<Rightarrow> aux) in
      if sv_init sa then
        (if st \<noteq> [] \<and> sv_overwrite sa \<noteq> Some True
         then Inl (PyException ''checkpoint exists'')
         else Inr [c])
      else Inr ((if sv_delete_old sa = Some True then butlast st else st) @ [c]))"

fun store_event :: "'v event \<Rightarrow> 'v ckpt list \<Rightarrow> 'v ckpt list" where
  "store_event (Call (Save sa) None) st = (case store_save sa st of Inl _ \<Rightarrow> st | Inr st' \<Rightarrow> st')"
| "store_event _ st = st"

definition store_of :: "'v event list \<Rightarrow> 'v ckpt list" where
  "store_of tr = fold store_event tr []"

definition store_load :: "'v ckpt list \<Rightarrow> exn + 'v ckpt" where
  "store_load st = (if st = [] then Inl (PyException ''no checkpoint'') else Inr (last st))"

text \<open>
  Modelled from the spec: the training dataset provider (\<open>TFRecordNewInputs\<close> is not
  part of train.py). Its cursor is the number of batches handed out; a provider built
  with a prior cursor resumes from it, one built without starts at 0 (spec 4.3). The
  batch it hands out is the cursor's value, and \<open>get_state\<close> is the cursor.
\<close>

fun cursor_event :: "nat event \<Rightarrow> nat \<Rightarrow> nat" where
  "cursor_event (Call (New_inputs TrainSet _ _ _ r) None) c = (case r of None \<Rightarrow> 0 | Some c' \<Rightarrow> c')"
| "cursor_event (Call (Get_samples TrainSet) None) c = Suc c"
| "cursor_event _ c = c"

definition cursor_of :: "nat event list \<Rightarrow> nat" where
  "cursor_of tr = fold cursor_event tr 0"

text \<open>
  A world made of the two, in which the call made after \<open>i\<close> events raises \<open>fault i\<close>
  when that is an exception, a validation provider hands out batch 0 and has nothing to
  iterate over, and every other callee returns at once.
\<close>

definition answer :: "(nat \<Rightarrow> exn option) \<Rightarrow> nat event list \<Rightarrow> exn + 'a \<Rightarrow> exn + 'a" where
  "answer fault tr r = (case fault (length tr) of Some e \<Rightarrow> Inl e | None \<Rightarrow> r)"

definition world :: "(nat \<Rightarrow> exn option) \<Rightarrow> nat env" where
  "world fault =
     \<lparr>input_prompt = (\<lambda>tr rq. answer fault tr (Inr ())),
      build_model = (\<lambda>tr rq. answer fault tr (Inr ())),
      t_save = (\<lambda>tr rq. answer fault tr
        (case rq of
           Save sa \<Rightarrow> (case store_save sa (store_of tr) of Inl e \<Rightarrow> Inl e | Inr _ \<Rightarrow> Inr ())
         | _ \<Rightarrow> Inr ())),
      t_load = (\<lambda>tr rq. answer fault tr (store_load (store_of tr))),
      new_inputs = (\<lambda>tr rq. answer fault tr (Inr ())),
      new_task = (\<lambda>tr rq. answer fault tr (Inr ())),
      get_samples = (\<lambda>tr rq. answer fault tr
        (Inr (case rq of Get_samples TrainSet \<Rightarrow> cursor_of tr | _ \<Rightarrow> 0))),
      get_state = (\<lambda>tr rq. answer fault tr (Inr (Some (cursor_of tr)))),
      sample_once = (\<lambda>tr rq. answer fault tr (Inr ())),
      next_sample = (\<lambda>tr rq. answer fault tr (Inr None)),
      t_train = (\<lambda>tr rq. answer fault tr (Inr (0, 0))),
      t_eval = (\<lambda>tr rq. answer fault tr (Inr 0)),
      task_run = (\<lambda>tr rq. answer fault tr (Inr [])),
      wandb_init = (\<lambda>tr rq. answer fault tr (Inr ())),
      wandb_log = (\<lambda>tr rq. answer fault tr (Inr ())),
      np_mean = (\<lambda>xs. 0)\<rparr>"

definition no_fault :: "nat \<Rightarrow> exn option" where
  "no_fault i = None"

definition fault_at :: "nat \<Rightarrow> exn \<Rightarrow> nat \<Rightarrow> exn option" where
  "fault_at i e j = (if j = i then Some e else None)"

definition faults :: "(nat \<times> exn) list \<Rightarrow> nat \<Rightarrow> exn option" where
  "faults xs i = map_of xs i"

text \<open>The inputs of the examples: a run named \<open>run\<close> with no validation sets.\<close>

definition args0 :: "bool \<Rightarrow> args" where
  "args0 b = \<lparr>tpu = ''tpu'', tpu_region = ''region'', preemptible = False,
              config = ''config.json'', new = b\<rparr>"

definition params0 :: "int \<Rightarrow> int \<Rightarrow> int \<Rightarrow> params" where
  "params0 c k v =
     \<lparr>name = ''run'', bucket = ''bucket'', model_dir = ''dir'',
      gradient_accumulation_steps = None, per_replica_batch = 1, tpu_size = 8,
      cores_per_replica = 8, seq = 2048, val_batches = 1, val_every = v,
      ckpt_every = c, keep_every = k, pe = ''rotary'', train_set = ''train.index'',
      val_set = []\<rparr>"

text \<open>The same run with two validation sets.\<close>

definition params1 :: params where
  "params1 = (params0 100 500 1000)
     \<lparr>val_set := [(''pile'', ''pile.val.index''), (''owt'', ''owt.val.index'')]\<rparr>"

subsection \<open>Events of a program\<close>

text \<open>Every event a program emits, whatever the history, satisfies \<open>P\<close>.\<close>

definition emits :: "('v event \<Rightarrow> bool) \<Rightarrow> ('v, 'a) prog \<Rightarrow> bool" where
  "emits P m = (\<forall>tr. \<forall>e \<in> set (snd (m tr)). P e)"


text \<open>
  A call that raised is the last event of the program and its exception is the outcome:
  nothing in the program caught it.
\<close>

definition strict :: "('v, 'a) prog \<Rightarrow> bool" where
  "strict m = (\<forall>tr rq e. Call rq (Some e) \<in> set (snd (m tr)) \<longrightarrow>
      fst (m tr) = Raises e \<and> (\<exists>A. snd (m tr) = A @ [Call rq (Some e)]))"

text \<open>
  What a \<open>t.save\<close> call may pass as \<open>overwrite\<close>: an initial save passes
  \<open>clean\<close>, any other save does not pass the keyword.
\<close>

definition save_flags :: "bool \<Rightarrow> 'v event \<Rightarrow> bool" where
  "save_flags clean e = (case save_of e of
       None \<Rightarrow> True
     | Some sa \<Rightarrow> if sv_init sa then sv_overwrite sa = Some clean else sv_overwrite sa = None)"

text \<open>
  Counts over the events of a run: training batches handed out, training calls,
  evaluation calls, and the validation sets a warm-up batch was drawn from. An event is
  \<open>untrained\<close> when it is neither of the first two, and \<open>quiet\<close> when it is
  none of the four. A program \<open>halts\<close> when it never runs out of fuel.
\<close>

definition train_batches :: "'v event list \<Rightarrow> nat" where
  "train_batches es = length (filter train_draw es)"

definition train_calls :: "'v event list \<Rightarrow> nat" where
  "train_calls es = length (filter train_call es)"

definition eval_calls :: "'v event list \<Rightarrow> nat" where
  "eval_calls es = length (filter eval_call es)"

definition val_draws :: "'v event list \<Rightarrow> string list" where
  "val_draws es = List.map_filter val_draw es"

definition untrained :: "'v event \<Rightarrow> bool" where
  "untrained e = (\<not> train_draw e \<and> \<not> train_call e)"

definition quiet :: "'v event \<Rightarrow> bool" where
  "quiet e = (\<not> train_draw e \<and> \<not> train_call e \<and> \<not> eval_call e \<and> val_draw e = None)"

definition halts :: "('v, 'a) prog \<Rightarrow> bool" where
  "halts m = (\<forall>tr. fst (m tr) \<noteq> Running)"

text \<open>
  The checkpoints the step loop has written: for each \<open>t.save\<close> call with
  \<open>init=False\<close> that returned, the recorded step and the cursor under
  \<open>train_loader\<close> in its auxiliary payload.
\<close>

fun written_of :: "'v event \<Rightarrow> (int \<times> 'v option) option" where
  "written_of (Call (Save sa) None) =
     (if sv_init sa then None
      else Some (sv_step sa, case sv_aux sa of None \<Rightarrow> None | Some aux \<Rightarrow> dict_get aux ''train_loader''))"
| "written_of _ = None"

definition checkpoints_written :: "'v event list \<Rightarrow> (int \<times> 'v option) list" where
  "checkpoints_written es = List.map_filter written_of es"

section \<open>Sequencing and events\<close>

lemma ret_apply: "ret x tr = (Returns x, [])" by (simp add: ret_def)
lemma raise_apply: "raise e tr = (Raises e, [])" by (simp add: raise_def)
lemma spin_apply: "spin tr = (Running, [])" by (simp add: spin_def)
lemma emit_apply: "emit m tr = (Returns (), [Print m])" by (simp add: emit_def)
lemma call_apply:
  "call rq f tr = (case f tr rq of Inl e \<Rightarrow> (Raises e, [Call rq (Some e)]) | Inr x \<Rightarrow> (Returns x, [Call rq None]))"
  by (simp add: call_def)
lemma andthen_apply:
  "andthen m f tr = (case m tr of
       (Returns x, es) \<Rightarrow> (case f x (tr @ es) of (r, es') \<Rightarrow> (r, es @ es'))
     | (Raises e, es) \<Rightarrow> (Raises e, es)
     | (Running, es) \<Rightarrow> (Running, es))"
  by (simp add: andthen_def)

lemma andthen_Returns:
  "m tr = (Returns x, es) \<Longrightarrow> andthen m f tr = (fst (f x (tr @ es)), es @ snd (f x (tr @ es)))"
  by (simp add: andthen_def split: prod.splits)
lemma andthen_Raises: "m tr = (Raises e, es) \<Longrightarrow> andthen m f tr = (Raises e, es)"
  by (simp add: andthen_def)
lemma andthen_Running: "m tr = (Running, es) \<Longrightarrow> andthen m f tr = (Running, es)"
  by (simp add: andthen_def)

lemma snd_andthen:
  "snd (andthen m f tr) =
     snd (m tr) @ (case fst (m tr) of Returns x \<Rightarrow> snd (f x (tr @ snd (m tr))) | _ \<Rightarrow> [])"
  by (simp add: andthen_def split: prod.splits result.splits)

lemma fst_andthen:
  "fst (andthen m f tr) =
     (case fst (m tr) of Returns x \<Rightarrow> fst (f x (tr @ snd (m tr))) | Raises e \<Rightarrow> Raises e | Running \<Rightarrow> Running)"
  by (simp add: andthen_def split: prod.splits result.splits)

lemma emitsD: "emits P m \<Longrightarrow> e \<in> set (snd (m tr)) \<Longrightarrow> P e"
  by (simp add: emits_def)

lemma emits_ret: "emits P (ret x)" by (simp add: emits_def ret_def)
lemma emits_raise: "emits P (raise e)" by (simp add: emits_def raise_def)
lemma emits_spin: "emits P spin" by (simp add: emits_def spin_def)
lemma emits_emit: "P (Print m) \<Longrightarrow> emits P (emit m)" by (simp add: emits_def emit_def)
lemma emits_call: "(\<And>oc. P (Call rq oc)) \<Longrightarrow> emits P (call rq f)"
  by (simp add: emits_def call_def split: sum.splits)
lemma emits_andthen: "emits P m \<Longrightarrow> (\<And>x. emits P (f x)) \<Longrightarrow> emits P (andthen m f)"
  by (auto simp: emits_def snd_andthen split: result.splits)
lemma snd_try:
  "snd (try_except_Exception m h tr) =
     snd (m tr) @ (case fst (m tr) of
        Raises e \<Rightarrow> if is_Exception e then snd (h e (tr @ snd (m tr))) else []
      | _ \<Rightarrow> [])"
  by (simp add: try_except_Exception_def split: prod.splits result.splits)
lemma fst_try:
  "fst (try_except_Exception m h tr) =
     (case fst (m tr) of
        Raises e \<Rightarrow> if is_Exception e then fst (h e (tr @ snd (m tr))) else Raises e
      | r \<Rightarrow> r)"
  by (simp add: try_except_Exception_def split: prod.splits result.splits)
lemma emits_try: "emits P m \<Longrightarrow> (\<And>e. emits P (h e)) \<Longrightarrow> emits P (try_except_Exception m h)"
  by (auto simp: emits_def snd_try split: result.splits if_splits)
lemma emits_foreach: "(\<And>x. emits P (body x)) \<Longrightarrow> emits P (foreach xs body)"
  by (induction xs) (auto intro: emits_ret emits_andthen)
lemma emits_if: "(c \<Longrightarrow> emits P m) \<Longrightarrow> (\<not> c \<Longrightarrow> emits P m') \<Longrightarrow> emits P (if c then m else m')"
  by simp
lemma emits_case_prod: "(\<And>a b. emits P (f a b)) \<Longrightarrow> emits P (case p of (a, b) \<Rightarrow> f a b)"
  by (cases p) simp
lemma emits_case_option: "emits P m \<Longrightarrow> (\<And>x. emits P (f x)) \<Longrightarrow> emits P (case opt of None \<Rightarrow> m | Some x \<Rightarrow> f x)"
  by (cases opt) simp_all
lemma emits_let: "emits P (f x) \<Longrightarrow> emits P (let y = x in f y)"
  by simp
lemma emits_py_mod: "emits P (py_mod a b)" by (simp add: py_mod_def emits_ret emits_raise)
lemma emits_py_floordiv: "emits P (py_floordiv a b)" by (simp add: py_floordiv_def emits_ret emits_raise)

lemmas emits_intros = emits_ret emits_raise emits_spin emits_emit emits_call emits_andthen
  emits_try emits_foreach emits_if emits_case_prod emits_case_option emits_py_mod emits_py_floordiv

lemma emits_val_losses: "(\<And>rq oc. (\<exists>d. rq = Next_sample d) \<or> (\<exists>b. rq = Eval b) \<Longrightarrow> P (Call rq oc)) \<Longrightarrow> emits P (val_losses n env nm acc)"
  by (induction n arbitrary: acc) (auto intro!: emits_intros)

section \<open>Running a program on a given history\<close>

text \<open>
  The equations of the programs applied to a history: with them the simplifier runs a
  program on a concrete environment from the first call to the last.
\<close>

lemma foreach_Nil_apply: "foreach [] body tr = (Returns (), [])"
  by (simp add: ret_def)
lemma foreach_Cons_apply: "foreach (x # xs) body tr = andthen (body x) (\<lambda>_. foreach xs body) tr"
  by simp
lemma try_apply:
  "try_except_Exception m h tr = (case m tr of
       (Raises e, es) \<Rightarrow>
         (if is_Exception e then (case h e (tr @ es) of (r, es') \<Rightarrow> (r, es @ es'))
          else (Raises e, es))
     | (Returns x, es) \<Rightarrow> (Returns x, es)
     | (Running, es) \<Rightarrow> (Running, es))"
  by (simp add: try_except_Exception_def split: prod.splits result.splits)
lemma step_loop_0_apply: "step_loop 0 env prm g step tr = (Running, [])"
  by (simp add: spin_def)
lemma step_loop_Suc_apply:
  "step_loop (Suc n) env prm g step tr =
     andthen (loop_body env prm g step) (\<lambda>s. step_loop n env prm g s) tr"
  by simp
lemma step_loop_numeral_apply:
  "step_loop (numeral k) env prm g step tr =
     andthen (loop_body env prm g step) (\<lambda>s. step_loop (pred_numeral k) env prm g s) tr"
  by (simp add: numeral_eq_Suc)
lemma supervisor_0_apply: "supervisor 0 n env a prm first tr = (Running, [])"
  by (simp add: spin_def)
lemma supervisor_numeral_apply:
  "supervisor (numeral k) n env a prm first tr =
     (case main n env a prm first tr of
       (Running, es) \<Rightarrow> (Running, es)
     | (Raises KeyboardInterrupt, es) \<Rightarrow> (Returns (), es)
     | (_, es) \<Rightarrow> (case supervisor (pred_numeral k) n env a prm False (tr @ es) of (r, es') \<Rightarrow> (r, es @ es')))"
  by (simp add: numeral_eq_Suc)
lemma val_losses_0_apply:
  "val_losses 0 env nm acc tr =
     andthen (call (Next_sample (ValSet nm)) (next_sample env)) (\<lambda>_. ret acc) tr"
  by simp
lemma val_losses_numeral_apply:
  "val_losses (numeral k) env nm acc tr =
     andthen (call (Next_sample (ValSet nm)) (next_sample env)) (\<lambda>i.
     case i of
       None \<Rightarrow> ret acc
     | Some b \<Rightarrow>
         andthen (call (Eval b) (t_eval env)) (\<lambda>l.
         val_losses (pred_numeral k) env nm (acc @ [l]))) tr"
  by (simp add: numeral_eq_Suc)

lemmas run_simps =
  ret_apply raise_apply spin_apply emit_apply call_apply andthen_apply try_apply
  foreach_Nil_apply foreach_Cons_apply
  step_loop_0_apply step_loop_Suc_apply step_loop_numeral_apply
  supervisor_0_apply supervisor.simps(2)[THEN fun_cong] supervisor_numeral_apply
  val_losses_0_apply val_losses.simps(2)[THEN fun_cong] val_losses_numeral_apply
  py_mod_def[THEN fun_cong] py_floordiv_def[THEN fun_cong]
  load_instead_def[THEN fun_cong] save_or_load_def[THEN fun_cong]
  train_step_def[THEN fun_cong] checkpoint_def[THEN fun_cong] validate_def[THEN fun_cong]
  run_task_def[THEN fun_cong] validation_losses_def[THEN fun_cong] benchmarks_def[THEN fun_cong]
  evaluation_round_def[THEN fun_cong] evaluate_def[THEN fun_cong]
  loop_body_def[THEN fun_cong] global_batch_def[THEN fun_cong] make_datasets_def[THEN fun_cong]
  make_tasks_def[THEN fun_cong] warm_up_eval_def[THEN fun_cong] warm_up_def[THEN fun_cong]
  confirm_new_def[THEN fun_cong] check_pe_def[THEN fun_cong] prepare_def[THEN fun_cong]
  main_def[THEN fun_cong] script_def[THEN fun_cong]
  initial_save_def checkpoint_save_def dict_get_def

lemmas world_simps =
  world_def answer_def no_fault_def fault_at_def faults_def store_of_def cursor_of_def store_save_def
  store_load_def params0_def params1_def args0_def

section \<open>The checkpoint schedule\<close>

lemma saves_append: "saves (xs @ ys) = saves xs @ saves ys"
  by (simp add: saves_def List.map_filter_def)
lemma saves_Nil: "saves [] = []"
  by (simp add: saves_def List.map_filter_def)
lemma saves_Cons: "saves (e # es) = (case save_of e of None \<Rightarrow> saves es | Some sa \<Rightarrow> sa # saves es)"
  by (simp add: saves_def List.map_filter_def split: option.splits)
lemma saves_empty: "(\<And>e. e \<in> set es \<Longrightarrow> save_of e = None) \<Longrightarrow> saves es = []"
  by (induction es) (simp_all add: saves_Nil saves_Cons)
lemma saves_emits: "emits (\<lambda>e. save_of e = None) m \<Longrightarrow> saves (snd (m tr)) = []"
  by (rule saves_empty) (erule emitsD)

lemma tasks_run_append: "tasks_run (xs @ ys) = tasks_run xs @ tasks_run ys"
  by (simp add: tasks_run_def List.map_filter_def)
lemma tasks_run_Nil: "tasks_run [] = []"
  by (simp add: tasks_run_def List.map_filter_def)
lemma tasks_run_Cons: "tasks_run (e # es) = (case task_of e of None \<Rightarrow> tasks_run es | Some t \<Rightarrow> t # tasks_run es)"
  by (simp add: tasks_run_def List.map_filter_def split: option.splits)
lemma tasks_run_empty: "(\<And>e. e \<in> set es \<Longrightarrow> task_of e = None) \<Longrightarrow> tasks_run es = []"
  by (induction es) (simp_all add: tasks_run_Nil tasks_run_Cons)
lemma tasks_run_emits: "emits (\<lambda>e. task_of e = None) m \<Longrightarrow> tasks_run (snd (m tr)) = []"
  by (rule tasks_run_empty) (erule emitsD)

lemma train_step_no_save: "emits (\<lambda>e. save_of e = None) (train_step env step)"
  unfolding train_step_def by (intro emits_intros; simp)
lemma validate_no_save: "emits (\<lambda>e. save_of e = None) (validate env prm step nm)"
  unfolding validate_def by (intro emits_intros emits_val_losses; auto)
lemma validate_no_task: "emits (\<lambda>e. task_of e = None) (validate env prm step nm)"
  unfolding validate_def by (intro emits_intros emits_val_losses; auto)
lemma run_task_no_save: "emits (\<lambda>e. save_of e = None) (run_task env g step tk)"
  unfolding run_task_def by (intro emits_intros; simp)
lemma evaluate_no_save: "emits (\<lambda>e. save_of e = None) (evaluate env prm g step)"
  unfolding evaluate_def evaluation_round_def validation_losses_def benchmarks_def
  by (intro emits_intros validate_no_save run_task_no_save)

lemma checkpoint_saves:
  "saves (snd (checkpoint env prm step tr)) =
     (if ckpt_every prm \<noteq> 0 \<and> step mod ckpt_every prm = 0 \<and> step \<noteq> 0 then
        (case get_state env tr (Get_state TrainSet) of
           Inl e \<Rightarrow> []
         | Inr state \<Rightarrow>
             if keep_every prm = 0 then []
             else [checkpoint_save prm step state (step mod keep_every prm \<noteq> 0)])
      else [])"
  by (simp add: checkpoint_def py_mod_def snd_andthen fst_andthen ret_apply raise_apply call_apply
        saves_Nil saves_Cons split: sum.splits)

lemma checkpoint_Returns:
  assumes "fst (checkpoint env prm step tr) = Returns u" "step mod ckpt_every prm = 0" "step \<noteq> 0"
  shows "\<exists>state. saves (snd (checkpoint env prm step tr)) =
            [checkpoint_save prm step state (step mod keep_every prm \<noteq> 0)]"
  using assms
  by (auto simp: checkpoint_def py_mod_def snd_andthen fst_andthen ret_apply raise_apply call_apply
        saves_Nil saves_Cons split: sum.splits if_splits)

lemma loop_body_saves:
  "saves (snd (loop_body env prm g step tr)) =
     (case fst (train_step env step tr) of
        Returns u \<Rightarrow> saves (snd (checkpoint env prm step (tr @ snd (train_step env step tr))))
      | _ \<Rightarrow> [])"
  by (simp add: loop_body_def snd_andthen saves_append saves_emits[OF train_step_no_save]
        saves_emits[OF evaluate_no_save] ret_apply saves_Nil split: result.splits)

text \<open>
  C5. In an iteration of the step loop at \<open>step\<close>, a checkpoint is written only if
  \<open>step % ckpt_every == 0\<close> and \<open>step != 0\<close>. It is written exactly when that
  holds and the iteration gets as far as the call: the training step and the cursor
  snapshot return and neither interval is 0. An iteration that runs to its end writes
  one whenever the condition holds: exactly one \<open>t.save\<close> call, for this step, with
  the cursor snapshot as its auxiliary payload, \<open>init=False\<close> and
  \<open>delete_old = (step % keep_every != 0)\<close>. An iteration that does not run to its end
  may have stopped before the save: the training call, the telemetry call or the cursor
  snapshot raised, or \<open>ckpt_every\<close> or \<open>keep_every\<close> is 0 and Python raised
  ZeroDivisionError at the \<open>%\<close>.
\<close>

theorem checkpoint_schedule:
  assumes "loop_body env prm g step tr = (r, es)"
  shows "(saves es \<noteq> [] \<longrightarrow> step mod ckpt_every prm = 0 \<and> step \<noteq> 0) \<and>
         (saves es \<noteq> [] \<longleftrightarrow>
            (\<exists>u state. fst (train_step env step tr) = Returns u \<and>
               get_state env (tr @ snd (train_step env step tr)) (Get_state TrainSet) = Inr state) \<and>
            ckpt_every prm \<noteq> 0 \<and> keep_every prm \<noteq> 0 \<and>
            step mod ckpt_every prm = 0 \<and> step \<noteq> 0) \<and>
         (r = Returns s \<longrightarrow> step mod ckpt_every prm = 0 \<and> step \<noteq> 0 \<longrightarrow>
            (\<exists>state. saves es = [checkpoint_save prm step state (step mod keep_every prm \<noteq> 0)]))"
proof -
  have es: "saves es = saves (snd (loop_body env prm g step tr))" and r: "r = fst (loop_body env prm g step tr)"
    using assms by simp_all
  have 1: "saves es \<noteq> [] \<longrightarrow> step mod ckpt_every prm = 0 \<and> step \<noteq> 0"
    by (auto simp: es loop_body_saves checkpoint_saves split: result.splits if_splits)
  have 2: "saves es \<noteq> [] \<longleftrightarrow>
            (\<exists>u state. fst (train_step env step tr) = Returns u \<and>
               get_state env (tr @ snd (train_step env step tr)) (Get_state TrainSet) = Inr state) \<and>
            ckpt_every prm \<noteq> 0 \<and> keep_every prm \<noteq> 0 \<and>
            step mod ckpt_every prm = 0 \<and> step \<noteq> 0"
    by (auto simp: es loop_body_saves checkpoint_saves split: result.splits if_splits sum.splits)
  have 3: "\<exists>state. saves es = [checkpoint_save prm step state (step mod keep_every prm \<noteq> 0)]"
    if "r = Returns s" "step mod ckpt_every prm = 0" "step \<noteq> 0"
  proof -
    from that(1) obtain u where t: "fst (train_step env step tr) = Returns u"
      and c: "fst (checkpoint env prm step (tr @ snd (train_step env step tr))) = Returns ()"
      by (auto simp: r loop_body_def fst_andthen split: result.splits)
    from checkpoint_Returns[OF c that(2,3)] show ?thesis
      by (simp add: es loop_body_saves t)
  qed
  from 1 2 3 show ?thesis by simp
qed

theorem checkpoint_schedule_witness:
  "loop_body (world no_fault) (params0 1 5 1000) 1 1 [] =
     (Returns 2,
      [Call (Get_samples TrainSet) None, Call (Train 0) None,
       Call (Wandb_log [(''train/loss'', 0), (''train/last_loss'', 0)] 1) None,
       Call (Get_state TrainSet) None,
       Call (Save (checkpoint_save (params0 1 5 1000) 1 (Some 1) True)) None]) \<and>
   (1::int) mod ckpt_every (params0 1 5 1000) = 0 \<and>
   saves [Call (Get_samples TrainSet) None, Call (Train (0::nat)) None,
       Call (Wandb_log [(''train/loss'', 0), (''train/last_loss'', 0)] 1) None,
       Call (Get_state TrainSet) None,
       Call (Save (checkpoint_save (params0 1 5 1000) 1 (Some 1) True)) None] =
     [checkpoint_save (params0 1 5 1000) 1 (Some 1) True]"
proof -
  have run: "loop_body (world no_fault) (params0 1 5 1000) 1 1 [] =
     (Returns 2,
      [Call (Get_samples TrainSet) None, Call (Train 0) None,
       Call (Wandb_log [(''train/loss'', 0), (''train/last_loss'', 0)] 1) None,
       Call (Get_state TrainSet) None,
       Call (Save (checkpoint_save (params0 1 5 1000) 1 (Some 1) True)) None])"
    by (simp add: run_simps world_simps)
  have due: "(1::int) mod ckpt_every (params0 1 5 1000) = 0"
    by (simp add: params0_def)
  have obs: "saves [Call (Get_samples TrainSet) None, Call (Train (0::nat)) None,
       Call (Wandb_log [(''train/loss'', 0), (''train/last_loss'', 0)] 1) None,
       Call (Get_state TrainSet) None,
       Call (Save (checkpoint_save (params0 1 5 1000) 1 (Some 1) True)) None] =
     [checkpoint_save (params0 1 5 1000) 1 (Some 1) True]"
    by (simp add: saves_Cons saves_Nil)
  from checkpoint_schedule[OF run, of 2] run due obs show ?thesis
    by blast
qed

section \<open>Exceptions pass through\<close>

lemma strictD:
  "strict m \<Longrightarrow> Call rq (Some e) \<in> set (snd (m tr)) \<Longrightarrow>
     fst (m tr) = Raises e \<and> (\<exists>A. snd (m tr) = A @ [Call rq (Some e)])"
  by (simp add: strict_def)

lemma strict_ret: "strict (ret x)" by (simp add: strict_def ret_def)
lemma strict_raise: "strict (raise e)" by (simp add: strict_def raise_def)
lemma strict_spin: "strict spin" by (simp add: strict_def spin_def)
lemma strict_emit: "strict (emit m)" by (simp add: strict_def emit_def)
lemma strict_call: "strict (call rq f)"
  by (simp add: strict_def call_def split: sum.splits)
lemma strict_andthen:
  assumes m: "strict m" and f: "\<And>x. strict (f x)"
  shows "strict (andthen m f)"
  unfolding strict_def
proof (intro allI impI)
  fix tr rq e
  assume mem: "Call rq (Some e) \<in> set (snd (andthen m f tr))"
  show "fst (andthen m f tr) = Raises e \<and> (\<exists>A. snd (andthen m f tr) = A @ [Call rq (Some e)])"
  proof (cases "Call rq (Some e) \<in> set (snd (m tr))")
    case True
    from strictD[OF m True] show ?thesis
      by (auto simp: fst_andthen snd_andthen)
  next
    case False
    with mem obtain x where x: "fst (m tr) = Returns x"
      and in2: "Call rq (Some e) \<in> set (snd (f x (tr @ snd (m tr))))"
      by (cases "fst (m tr)") (auto simp: snd_andthen)
    from strictD[OF f in2] obtain A where
      "fst (f x (tr @ snd (m tr))) = Raises e" "snd (f x (tr @ snd (m tr))) = A @ [Call rq (Some e)]"
      by blast
    then show ?thesis
      by (simp add: fst_andthen snd_andthen x)
  qed
qed
lemma strict_foreach: "(\<And>x. strict (body x)) \<Longrightarrow> strict (foreach xs body)"
  by (induction xs) (auto intro: strict_ret strict_andthen)
lemma strict_if: "(c \<Longrightarrow> strict m) \<Longrightarrow> (\<not> c \<Longrightarrow> strict m') \<Longrightarrow> strict (if c then m else m')"
  by simp
lemma strict_case_prod: "(\<And>a b. strict (f a b)) \<Longrightarrow> strict (case p of (a, b) \<Rightarrow> f a b)"
  by (cases p) simp
lemma strict_case_option: "strict m \<Longrightarrow> (\<And>x. strict (f x)) \<Longrightarrow> strict (case opt of None \<Rightarrow> m | Some x \<Rightarrow> f x)"
  by (cases opt) simp_all
lemma strict_py_mod: "strict (py_mod a b)" by (simp add: py_mod_def strict_ret strict_raise)
lemma strict_py_floordiv: "strict (py_floordiv a b)" by (simp add: py_floordiv_def strict_ret strict_raise)

lemmas strict_intros = strict_ret strict_raise strict_spin strict_emit strict_call strict_andthen
  strict_foreach strict_if strict_case_prod strict_case_option strict_py_mod strict_py_floordiv

lemma strict_val_losses: "strict (val_losses n env nm acc)"
  by (induction n arbitrary: acc) (auto intro!: strict_intros)
lemma strict_loop_body: "strict (loop_body env prm g step)"
  unfolding loop_body_def train_step_def checkpoint_def evaluate_def evaluation_round_def
    validation_losses_def benchmarks_def validate_def run_task_def
  by (intro strict_intros strict_val_losses)
lemma strict_step_loop: "strict (step_loop n env prm g step)"
  by (induction n arbitrary: step) (auto intro!: strict_intros strict_loop_body)

section \<open>The evaluation round\<close>


lemma emits_ball: "emits P m \<Longrightarrow> \<forall>e \<in> set (snd (m tr)). P e"
  by (simp add: emits_def)

lemma run_task_tasks: "tasks_run (snd (run_task env g step tk tr)) = [tk]"
  by (simp add: run_task_def snd_andthen fst_andthen call_apply emit_apply tasks_run_Cons
        tasks_run_Nil split: sum.splits)

lemma benchmarks_tasks:
  "prefix (tasks_run (snd (benchmarks env g step tr))) [Lambada, Winogrande, PIQA, HellaSwag] \<and>
   (fst (benchmarks env g step tr) = Returns () \<longrightarrow>
      tasks_run (snd (benchmarks env g step tr)) = [Lambada, Winogrande, PIQA, HellaSwag])"
  by (simp add: benchmarks_def snd_andthen fst_andthen tasks_run_append run_task_tasks
        tasks_run_Nil split: result.splits)

lemma validation_losses_no_task: "emits (\<lambda>e. task_of e = None) (validation_losses env prm step)"
  unfolding validation_losses_def by (intro emits_intros validate_no_task)




lemma train_step_no_task: "emits (\<lambda>e. task_of e = None) (train_step env step)"
  unfolding train_step_def by (intro emits_intros; simp)
lemma checkpoint_no_task: "emits (\<lambda>e. task_of e = None) (checkpoint env prm step)"
  unfolding checkpoint_def by (intro emits_intros; simp)

lemma evaluation_round_tasks:
  "prefix (tasks_run (snd (evaluation_round env prm g step tr))) [Lambada, Winogrande, PIQA, HellaSwag] \<and>
   (fst (evaluation_round env prm g step tr) = Returns () \<longrightarrow>
      tasks_run (snd (evaluation_round env prm g step tr)) = [Lambada, Winogrande, PIQA, HellaSwag])"
  using benchmarks_tasks[of env g step "tr @ snd (validation_losses env prm step tr)"]
  by (simp add: evaluation_round_def snd_andthen fst_andthen tasks_run_append
        tasks_run_emits[OF validation_losses_no_task] tasks_run_Nil split: result.splits)

lemma evaluate_tasks:
  "prefix (tasks_run (snd (evaluate env prm g step tr))) [Lambada, Winogrande, PIQA, HellaSwag]"
  using evaluation_round_tasks[of env prm g step tr]
  by (simp add: evaluate_def py_mod_def snd_andthen fst_andthen ret_apply raise_apply tasks_run_Nil)

lemma loop_body_tasks:
  "prefix (tasks_run (snd (loop_body env prm g step tr))) [Lambada, Winogrande, PIQA, HellaSwag]"
  by (simp add: loop_body_def snd_andthen tasks_run_append tasks_run_emits[OF train_step_no_task]
        tasks_run_emits[OF checkpoint_no_task] evaluate_tasks ret_apply tasks_run_Nil
        split: result.splits)

lemma prefix_ends:
  "prefix (ts @ [tk]) [Lambada, Winogrande, PIQA, HellaSwag] \<Longrightarrow>
     ts @ [tk] = takeWhile (\<lambda>t. t \<noteq> tk) [Lambada, Winogrande, PIQA, HellaSwag] @ [tk]"
  by (auto simp: prefix_Cons append_eq_Cons_conv)









text \<open>
  C4, as the claim states it, fails: here the first task of the round at step 0 raises,
  the iteration ends with that exception, and winogrande, piqa and hellaswag are not run.
\<close>

theorem benchmark_isolation_counterexample:
  "loop_body (world (fault_at 3 (PyException ''boom''))) (params0 100 500 1000) 1 0 [] =
     (Raises (PyException ''boom''),
      [Call (Get_samples TrainSet) None, Call (Train 0) None,
       Call (Wandb_log [(''train/loss'', 0), (''train/last_loss'', 0)] 0) None,
       Call (Task_run Lambada 1) (Some (PyException ''boom''))])"
  by (simp add: run_simps world_simps)

text \<open>
  C4, amended. The benchmark tasks are not isolated from each other. When a task of the
  round raises, the exception is the outcome of the iteration, the raising call is its
  last event, and the tasks that have run are those configured before it and the task
  itself: the tasks after it are not run in that round.
\<close>

theorem benchmark_failure_ends_round:
  assumes "loop_body env prm g step tr = (r, es)"
    and "Call (Task_run tk g') (Some e) \<in> set es"
  shows "r = Raises e \<and> (\<exists>A. es = A @ [Call (Task_run tk g') (Some e)]) \<and>
         tasks_run es = takeWhile (\<lambda>t. t \<noteq> tk) [Lambada, Winogrande, PIQA, HellaSwag] @ [tk]"
proof -
  have es: "es = snd (loop_body env prm g step tr)" and r: "r = fst (loop_body env prm g step tr)"
    using assms(1) by simp_all
  from strictD[OF strict_loop_body] assms(2) obtain A where
    raised: "r = Raises e" and last: "es = A @ [Call (Task_run tk g') (Some e)]"
    unfolding es r by blast
  have "prefix (tasks_run es) [Lambada, Winogrande, PIQA, HellaSwag]"
    unfolding es by (rule loop_body_tasks)
  then have "prefix (tasks_run A @ [tk]) [Lambada, Winogrande, PIQA, HellaSwag]"
    by (simp add: last tasks_run_append tasks_run_Cons tasks_run_Nil)
  from prefix_ends[OF this] have "tasks_run es = takeWhile (\<lambda>t. t \<noteq> tk) [Lambada, Winogrande, PIQA, HellaSwag] @ [tk]"
    by (simp add: last tasks_run_append tasks_run_Cons tasks_run_Nil)
  with raised last show ?thesis by blast
qed

theorem benchmark_failure_ends_round_witness:
  "Call (Task_run Winogrande 1) (Some (PyException ''ConnectionError'')) \<in>
     set (snd (loop_body (world (fault_at 6 (PyException ''ConnectionError'')))
       (params0 100 500 1000) 1 0 [])) \<and>
   fst (loop_body (world (fault_at 6 (PyException ''ConnectionError''))) (params0 100 500 1000) 1 0 []) =
     Raises (PyException ''ConnectionError'') \<and>
   tasks_run (snd (loop_body (world (fault_at 6 (PyException ''ConnectionError'')))
       (params0 100 500 1000) 1 0 [])) =
     [Lambada, Winogrande]"
proof -
  have run: "loop_body (world (fault_at 6 (PyException ''ConnectionError''))) (params0 100 500 1000) 1 0 [] =
     (Raises (PyException ''ConnectionError''),
      [Call (Get_samples TrainSet) None, Call (Train 0) None,
       Call (Wandb_log [(''train/loss'', 0), (''train/last_loss'', 0)] 0) None,
       Call (Task_run Lambada 1) None, Call (Wandb_log [] 0) None, Print (Task_results []),
       Call (Task_run Winogrande 1) (Some (PyException ''ConnectionError''))])"
    by (simp add: run_simps world_simps)
  have mem: "Call (Task_run Winogrande 1) (Some (PyException ''ConnectionError'')) \<in>
     set (snd (loop_body (world (fault_at 6 (PyException ''ConnectionError'')))
       (params0 100 500 1000) 1 0 []))"
    by (simp add: run)
  have mem': "Call (Task_run Winogrande 1) (Some (PyException ''ConnectionError'')) \<in>
     set [Call (Get_samples TrainSet) None, Call (Train (0::nat)) None,
       Call (Wandb_log [(''train/loss'', 0), (''train/last_loss'', 0)] 0) None,
       Call (Task_run Lambada 1) None, Call (Wandb_log [] 0) None, Print (Task_results []),
       Call (Task_run Winogrande 1) (Some (PyException ''ConnectionError''))]"
    by simp
  from benchmark_failure_ends_round[OF run mem'] mem show ?thesis
    by (simp add: run)
qed



section \<open>The supervisor loop\<close>

lemma supervisor_Suc_apply:
  "supervisor (Suc k) n env a prm first tr =
     (case main n env a prm first tr of
       (Running, es) \<Rightarrow> (Running, es)
     | (Raises KeyboardInterrupt, es) \<Rightarrow> (Returns (), es)
     | (_, es) \<Rightarrow> (case supervisor k n env a prm False (tr @ es) of (r, es') \<Rightarrow> (r, es @ es')))"
  by simp

lemma fst_supervisor_Suc:
  "fst (supervisor (Suc k) n env a prm first tr) =
     (case fst (main n env a prm first tr) of
        Running \<Rightarrow> Running
      | Raises KeyboardInterrupt \<Rightarrow> Returns ()
      | _ \<Rightarrow> fst (supervisor k n env a prm False (tr @ snd (main n env a prm first tr))))"
  by (simp split: prod.splits result.splits exn.splits)

lemma snd_supervisor_Suc:
  "snd (supervisor (Suc k) n env a prm first tr) =
     snd (main n env a prm first tr) @
     (case fst (main n env a prm first tr) of
        Running \<Rightarrow> []
      | Raises KeyboardInterrupt \<Rightarrow> []
      | _ \<Rightarrow> snd (supervisor k n env a prm False (tr @ snd (main n env a prm first tr))))"
  by (simp split: prod.splits result.splits exn.splits)

lemma supervisor_never_raises: "fst (supervisor k n env a prm first tr) \<noteq> Raises e"
proof (induction k arbitrary: first tr)
  case 0
  show ?case by (simp add: spin_def)
next
  case (Suc k)
  show ?case
    by (simp add: fst_supervisor_Suc Suc.IH del: supervisor.simps split: result.splits exn.splits)
qed

text \<open>
  C3, as the claim states it, fails on "logged": here the first attempt raises an
  exception at its first call, the supervisor starts the second attempt, which is
  interrupted, and the script returns. The two calls are all the events of the run:
  nothing was printed or logged about the exception.
\<close>

theorem silent_restart_counterexample:
  "script 2 0 (world (faults [(0, PyException ''boom''), (1, KeyboardInterrupt)]))
      (args0 False) (params0 100 500 1000) [] =
     (Returns (),
      [Call Build_model (Some (PyException ''boom'')),
       Call Build_model (Some KeyboardInterrupt)])"
  by (simp add: run_simps world_simps)

text \<open>
  C3, amended. No exception leaves the supervisor loop. When an attempt raises
  KeyboardInterrupt the loop ends there and the script returns, with no further event:
  there is no restart. When it raises anything else, the next attempt starts at once
  with \<open>first = False\<close>, on the history the failed attempt left: the handler is
  \<open>pass\<close>, so the supervisor records nothing about the exception.
\<close>

theorem supervisor_restarts:
  assumes "main n env a prm first tr = (r, es)"
  shows "(r = Raises KeyboardInterrupt \<longrightarrow>
            supervisor (Suc k) n env a prm first tr = (Returns (), es)) \<and>
         (\<forall>e. r = Raises e \<and> e \<noteq> KeyboardInterrupt \<longrightarrow>
            supervisor (Suc k) n env a prm first tr =
              (fst (supervisor k n env a prm False (tr @ es)),
               es @ snd (supervisor k n env a prm False (tr @ es)))) \<and>
         (\<forall>e. fst (supervisor (Suc k) n env a prm first tr) \<noteq> Raises e)"
proof -
  have 1: "r = Raises KeyboardInterrupt \<longrightarrow> supervisor (Suc k) n env a prm first tr = (Returns (), es)"
    using assms by (simp add: supervisor_Suc_apply)
  have 2: "\<forall>e. r = Raises e \<and> e \<noteq> KeyboardInterrupt \<longrightarrow>
            supervisor (Suc k) n env a prm first tr =
              (fst (supervisor k n env a prm False (tr @ es)),
               es @ snd (supervisor k n env a prm False (tr @ es)))"
    using assms by (auto simp: supervisor_Suc_apply split: prod.splits exn.splits)
  have 3: "\<forall>e. fst (supervisor (Suc k) n env a prm first tr) \<noteq> Raises e"
    by (simp add: supervisor_never_raises del: supervisor.simps)
  from 1 2 3 show ?thesis by blast
qed

theorem supervisor_restarts_witness:
  "main 0 (world (faults [(0, PyException ''boom''), (1, KeyboardInterrupt)]))
      (args0 False) (params0 100 500 1000) True [] =
     (Raises (PyException ''boom''), [Call Build_model (Some (PyException ''boom''))]) \<and>
   supervisor (Suc (Suc 0)) 0 (world (faults [(0, PyException ''boom''), (1, KeyboardInterrupt)]))
      (args0 False) (params0 100 500 1000) True [] =
     (Returns (),
      [Call Build_model (Some (PyException ''boom'')),
       Call Build_model (Some KeyboardInterrupt)])"
proof -
  have run: "main 0 (world (faults [(0, PyException ''boom''), (1, KeyboardInterrupt)]))
      (args0 False) (params0 100 500 1000) True [] =
     (Raises (PyException ''boom''), [Call Build_model (Some (PyException ''boom''))])"
    by (simp add: run_simps world_simps)
  have next_attempt: "supervisor (Suc 0) 0 (world (faults [(0, PyException ''boom''), (1, KeyboardInterrupt)]))
      (args0 False) (params0 100 500 1000) False
      [Call Build_model (Some (PyException ''boom''))] =
     (Returns (), [Call Build_model (Some KeyboardInterrupt)])"
    by (simp add: run_simps world_simps)
  from supervisor_restarts[OF run, of "Suc 0"] run next_attempt show ?thesis
    by simp
qed

section \<open>Clean start\<close>

lemma emits_mono: "emits P m \<Longrightarrow> (\<And>e. P e \<Longrightarrow> Q e) \<Longrightarrow> emits Q m"
  by (auto simp: emits_def)

lemma no_save_flags: "save_of e = None \<Longrightarrow> save_flags c e"
  by (simp add: save_flags_def)

lemma confirm_new_no_save: "emits (\<lambda>e. save_of e = None) (confirm_new env a prm)"
  unfolding confirm_new_def by (intro emits_intros; simp)
lemma check_pe_no_save: "emits (\<lambda>e. save_of e = None) (check_pe prm)"
  unfolding check_pe_def by (intro emits_intros; simp)
lemma make_datasets_no_save: "emits (\<lambda>e. save_of e = None) (make_datasets env prm r)"
  unfolding make_datasets_def global_batch_def by (intro emits_intros; simp)
lemma make_tasks_no_save: "emits (\<lambda>e. save_of e = None) (make_tasks env prm)"
  unfolding make_tasks_def by (intro emits_intros; simp)
lemma warm_up_no_save: "emits (\<lambda>e. save_of e = None) (warm_up env prm)"
  unfolding warm_up_def warm_up_eval_def by (intro emits_intros; simp)

lemma save_or_load_flags: "emits (save_flags c) (save_or_load env prm c)"
  unfolding save_or_load_def load_instead_def Let_def
  by (intro emits_intros; simp add: save_flags_def initial_save_def)

lemma checkpoint_flags: "emits (save_flags c) (checkpoint env prm step)"
  unfolding checkpoint_def
  by (intro emits_intros; simp add: save_flags_def checkpoint_save_def)

lemma loop_body_flags: "emits (save_flags c) (loop_body env prm g step)"
  unfolding loop_body_def
  by (intro emits_intros checkpoint_flags
        emits_mono[OF train_step_no_save no_save_flags]
        emits_mono[OF evaluate_no_save no_save_flags])

lemma step_loop_flags: "emits (save_flags c) (step_loop n env prm g step)"
  by (induction n arbitrary: step) (auto intro!: emits_intros loop_body_flags)

lemma prepare_flags: "emits (save_flags (new a \<and> first)) (prepare env a prm first)"
  unfolding prepare_def Let_def
  by (intro emits_intros save_or_load_flags
        emits_mono[OF confirm_new_no_save no_save_flags]
        emits_mono[OF check_pe_no_save no_save_flags]
        emits_mono[OF make_datasets_no_save no_save_flags]
        emits_mono[OF make_tasks_no_save no_save_flags]
        emits_mono[OF warm_up_no_save no_save_flags]; simp add: save_flags_def)

lemma main_flags: "emits (save_flags (new a \<and> first)) (main n env a prm first)"
  unfolding main_def
  by (intro emits_intros prepare_flags step_loop_flags)

lemma supervisor_flags: "emits (save_flags False) (supervisor k n env a prm False)"
  unfolding emits_def
proof (intro allI)
  fix tr
  show "\<forall>e \<in> set (snd (supervisor k n env a prm False tr)). save_flags False e"
  proof (induction k arbitrary: tr)
    case 0
    show ?case by (simp add: spin_def)
  next
    case (Suc k)
    have "\<forall>e \<in> set (snd (main n env a prm False tr)). save_flags (new a \<and> False) e"
      by (rule emits_ball[OF main_flags])
    then have "\<forall>e \<in> set (snd (main n env a prm False tr)). save_flags False e"
      by simp
    with Suc.IH show ?case
      by (auto simp: snd_supervisor_Suc simp del: supervisor.simps split: result.splits exn.splits)
  qed
qed

text \<open>
  C1. In a run of the script, the events of the first attempt come first, and every
  \<open>t.save\<close> call is either an initial save (\<open>init=True\<close>) with
  \<open>overwrite = (args.new and the call belongs to the first attempt)\<close>, or a
  checkpoint of the step loop, which does not pass \<open>overwrite\<close> at all. So
  overwriting is asked for only by the initial save of the first attempt, and only when
  \<open>--new\<close> was given; the initial save of every later attempt is issued with
  \<open>overwrite=False\<close>. What \<open>t.save\<close> does with the flag is the model handle's
  part, which is not in train.py; on the storage of the specification an initial save
  with overwrite off leaves the stored checkpoints alone (\<open>initial_save_keeps_store\<close>
  in the last section).
\<close>

theorem clean_start_gate:
  assumes "main n env a prm True tr = (r1, es1)"
    and "script (Suc k) n env a prm tr = (r, es)"
  shows "take (length es1) es = es1 \<and>
         (\<forall>i sa oc. i < length es \<and> es ! i = Call (Save sa) oc \<longrightarrow>
            (if sv_init sa then sv_overwrite sa = Some (new a \<and> i < length es1)
             else sv_overwrite sa = None))"
proof -
  define rest where "rest = (case r1 of
        Running \<Rightarrow> []
      | Raises KeyboardInterrupt \<Rightarrow> []
      | _ \<Rightarrow> snd (supervisor k n env a prm False (tr @ es1)))"
  have es: "es = es1 @ rest"
    using assms(2) unfolding script_def rest_def
    by (simp add: assms(1) split: prod.splits result.splits exn.splits)
  have "\<forall>e \<in> set (snd (main n env a prm True tr)). save_flags (new a \<and> True) e"
    by (rule emits_ball[OF main_flags])
  then have first: "\<forall>e \<in> set es1. save_flags (new a) e"
    by (simp add: assms(1))
  have "\<forall>e \<in> set (snd (supervisor k n env a prm False (tr @ es1))). save_flags False e"
    by (rule emits_ball[OF supervisor_flags])
  then have later: "\<forall>e \<in> set rest. save_flags False e"
    unfolding rest_def by (simp split: result.splits exn.splits)
  have "if sv_init sa then sv_overwrite sa = Some (new a \<and> i < length es1)
        else sv_overwrite sa = None"
    if i: "i < length es" and ev: "es ! i = Call (Save sa) oc" for i sa oc
  proof (cases "i < length es1")
    case True
    then have "es1 ! i = Call (Save sa) oc"
      using ev by (simp add: es nth_append)
    with True have "Call (Save sa) oc \<in> set es1"
      by (metis nth_mem)
    with first have "save_flags (new a) (Call (Save sa) oc)" by blast
    with True show ?thesis by (simp add: save_flags_def)
  next
    case False
    then have "rest ! (i - length es1) = Call (Save sa) oc" "i - length es1 < length rest"
      using ev i by (simp_all add: es nth_append)
    then have "Call (Save sa) oc \<in> set rest"
      by (metis nth_mem)
    with later have "save_flags False (Call (Save sa) oc)" by blast
    with False show ?thesis by (simp add: save_flags_def)
  qed
  then have flags: "\<forall>i sa oc. i < length es \<and> es ! i = Call (Save sa) oc \<longrightarrow>
            (if sv_init sa then sv_overwrite sa = Some (new a \<and> i < length es1)
             else sv_overwrite sa = None)"
    by blast
  show ?thesis
  proof (intro conjI)
    show "take (length es1) es = es1"
      by (simp add: es)
    show "\<forall>i sa oc. i < length es \<and> es ! i = Call (Save sa) oc \<longrightarrow>
            (if sv_init sa then sv_overwrite sa = Some (new a \<and> i < length es1)
             else sv_overwrite sa = None)"
      by (rule flags)
  qed
qed

theorem clean_start_gate_witness:
  "main 0 (world (faults [(4, PyException ''boom''), (12, KeyboardInterrupt)]))
      (args0 True) (params0 100 500 1000) True [] =
     (Raises (PyException ''boom''),
      [Print (Starting_from_scratch ''run'' ''bucket'' ''dir''),
       Call Input_prompt None, Call Build_model None,
       Call (Save (initial_save (params0 100 500 1000) True)) None,
       Call (New_inputs TrainSet ''data/train.index'' [1, 1] 2048 None)
         (Some (PyException ''boom''))]) \<and>
   script (Suc (Suc 0)) 0 (world (faults [(4, PyException ''boom''), (12, KeyboardInterrupt)]))
      (args0 True) (params0 100 500 1000) [] =
     (Returns (),
      [Print (Starting_from_scratch ''run'' ''bucket'' ''dir''),
       Call Input_prompt None, Call Build_model None,
       Call (Save (initial_save (params0 100 500 1000) True)) None,
       Call (New_inputs TrainSet ''data/train.index'' [1, 1] 2048 None)
         (Some (PyException ''boom'')),
       Print (Starting_from_scratch ''run'' ''bucket'' ''dir''),
       Call Input_prompt None, Call Build_model None,
       Call (Save (initial_save (params0 100 500 1000) False))
         (Some (PyException ''checkpoint exists'')),
       Print (Save_failed (PyException ''checkpoint exists'')),
       Call (Load ''bucket'' ''dir'') None, Print Restore_failed,
       Call (New_inputs TrainSet ''data/train.index'' [1, 1] 2048 None)
         (Some KeyboardInterrupt)]) \<and>
   sv_overwrite (initial_save (params0 100 500 1000) True :: nat save_args) = Some True \<and>
   sv_overwrite (initial_save (params0 100 500 1000) False :: nat save_args) = Some False"
proof -
  have first: "main 0 (world (faults [(4, PyException ''boom''), (12, KeyboardInterrupt)]))
      (args0 True) (params0 100 500 1000) True [] =
     (Raises (PyException ''boom''),
      [Print (Starting_from_scratch ''run'' ''bucket'' ''dir''),
       Call Input_prompt None, Call Build_model None,
       Call (Save (initial_save (params0 100 500 1000) True)) None,
       Call (New_inputs TrainSet ''data/train.index'' [1, 1] 2048 None)
         (Some (PyException ''boom''))])"
    by (simp add: run_simps world_simps)
  have whole: "script (Suc (Suc 0)) 0 (world (faults [(4, PyException ''boom''), (12, KeyboardInterrupt)]))
      (args0 True) (params0 100 500 1000) [] =
     (Returns (),
      [Print (Starting_from_scratch ''run'' ''bucket'' ''dir''),
       Call Input_prompt None, Call Build_model None,
       Call (Save (initial_save (params0 100 500 1000) True)) None,
       Call (New_inputs TrainSet ''data/train.index'' [1, 1] 2048 None)
         (Some (PyException ''boom'')),
       Print (Starting_from_scratch ''run'' ''bucket'' ''dir''),
       Call Input_prompt None, Call Build_model None,
       Call (Save (initial_save (params0 100 500 1000) False))
         (Some (PyException ''checkpoint exists'')),
       Print (Save_failed (PyException ''checkpoint exists'')),
       Call (Load ''bucket'' ''dir'') None, Print Restore_failed,
       Call (New_inputs TrainSet ''data/train.index'' [1, 1] 2048 None)
         (Some KeyboardInterrupt)])"
    by (simp add: run_simps world_simps)
  have flags: "sv_overwrite (initial_save (params0 100 500 1000) True :: nat save_args) = Some True"
    "sv_overwrite (initial_save (params0 100 500 1000) False :: nat save_args) = Some False"
    by (simp_all add: initial_save_def)
  from clean_start_gate[OF first whole] first whole flags show ?thesis
    by blast
qed

section \<open>Resuming without a cursor\<close>



section \<open>The calls before the step loop\<close>

lemma counts_Nil:
  "train_batches [] = 0" "train_calls [] = 0" "eval_calls [] = 0" "val_draws [] = []"
  by (simp_all add: train_batches_def train_calls_def eval_calls_def val_draws_def List.map_filter_def)

lemma counts_append:
  "train_batches (xs @ ys) = train_batches xs + train_batches ys"
  "train_calls (xs @ ys) = train_calls xs + train_calls ys"
  "eval_calls (xs @ ys) = eval_calls xs + eval_calls ys"
  "val_draws (xs @ ys) = val_draws xs @ val_draws ys"
  by (simp_all add: train_batches_def train_calls_def eval_calls_def val_draws_def List.map_filter_def)

lemma counts_Cons:
  "train_batches (e # es) = (if train_draw e then 1 else 0) + train_batches es"
  "train_calls (e # es) = (if train_call e then 1 else 0) + train_calls es"
  "eval_calls (e # es) = (if eval_call e then 1 else 0) + eval_calls es"
  "val_draws (e # es) = (case val_draw e of None \<Rightarrow> val_draws es | Some nm \<Rightarrow> nm # val_draws es)"
  by (simp_all add: train_batches_def train_calls_def eval_calls_def val_draws_def
        List.map_filter_def split: option.splits)

lemma untrained_counts:
  "(\<And>e. e \<in> set es \<Longrightarrow> untrained e) \<Longrightarrow> train_batches es = 0 \<and> train_calls es = 0"
  by (induction es) (simp_all add: counts_Nil counts_Cons untrained_def)

lemma quiet_counts:
  "(\<And>e. e \<in> set es \<Longrightarrow> quiet e) \<Longrightarrow>
     train_batches es = 0 \<and> train_calls es = 0 \<and> eval_calls es = 0 \<and> val_draws es = []"
  by (induction es) (simp_all add: counts_Nil counts_Cons quiet_def)

lemma untrained_emits:
  "emits untrained m \<Longrightarrow> train_batches (snd (m tr)) = 0 \<and> train_calls (snd (m tr)) = 0"
  by (rule untrained_counts) (erule emitsD)

lemma quiet_emits:
  "emits quiet m \<Longrightarrow>
     train_batches (snd (m tr)) = 0 \<and> train_calls (snd (m tr)) = 0 \<and>
     eval_calls (snd (m tr)) = 0 \<and> val_draws (snd (m tr)) = []"
  by (rule quiet_counts) (erule emitsD)


lemma halts_ret: "halts (ret x)" by (simp add: halts_def ret_def)
lemma halts_raise: "halts (raise e)" by (simp add: halts_def raise_def)
lemma halts_emit: "halts (emit m)" by (simp add: halts_def emit_def)
lemma halts_call: "halts (call rq f)" by (simp add: halts_def call_def split: sum.splits)
lemma halts_andthen: "halts m \<Longrightarrow> (\<And>x. halts (f x)) \<Longrightarrow> halts (andthen m f)"
  by (auto simp: halts_def fst_andthen split: result.splits)
lemma halts_try: "halts m \<Longrightarrow> (\<And>e. halts (h e)) \<Longrightarrow> halts (try_except_Exception m h)"
  by (auto simp: halts_def fst_try split: result.splits)
lemma halts_foreach: "(\<And>x. halts (body x)) \<Longrightarrow> halts (foreach xs body)"
  by (induction xs) (auto intro: halts_ret halts_andthen)
lemma halts_if: "(c \<Longrightarrow> halts m) \<Longrightarrow> (\<not> c \<Longrightarrow> halts m') \<Longrightarrow> halts (if c then m else m')"
  by simp
lemma halts_case_prod: "(\<And>a b. halts (f a b)) \<Longrightarrow> halts (case p of (a, b) \<Rightarrow> f a b)"
  by (cases p) simp
lemma halts_case_option: "halts m \<Longrightarrow> (\<And>x. halts (f x)) \<Longrightarrow> halts (case opt of None \<Rightarrow> m | Some x \<Rightarrow> f x)"
  by (cases opt) simp_all
lemma halts_py_mod: "halts (py_mod a b)" by (simp add: py_mod_def halts_ret halts_raise)
lemma halts_py_floordiv: "halts (py_floordiv a b)" by (simp add: py_floordiv_def halts_ret halts_raise)

lemmas halts_intros = halts_ret halts_raise halts_emit halts_call halts_andthen halts_try
  halts_foreach halts_if halts_case_prod halts_case_option halts_py_mod halts_py_floordiv

lemma halts_prepare: "halts (prepare env a prm first)"
  unfolding prepare_def Let_def confirm_new_def check_pe_def save_or_load_def load_instead_def
    make_datasets_def global_batch_def make_tasks_def warm_up_def warm_up_eval_def
  by (intro halts_intros)

lemma checkpoint_untrained: "emits untrained (checkpoint env prm step)"
  unfolding checkpoint_def by (intro emits_intros; simp add: untrained_def)
lemma validate_untrained: "emits untrained (validate env prm step nm)"
  unfolding validate_def by (intro emits_intros emits_val_losses; auto simp: untrained_def)
lemma evaluate_untrained: "emits untrained (evaluate env prm g step)"
  unfolding evaluate_def evaluation_round_def validation_losses_def benchmarks_def run_task_def
  by (intro emits_intros validate_untrained; simp add: untrained_def)

lemma train_step_counts:
  "fst (train_step env step tr) = Returns u \<Longrightarrow>
     train_batches (snd (train_step env step tr)) = 1 \<and> train_calls (snd (train_step env step tr)) = 1"
  by (auto simp: train_step_def fst_andthen snd_andthen call_apply counts_Cons counts_Nil
        split: sum.splits result.splits prod.splits)

lemma loop_body_counts:
  assumes "fst (loop_body env prm g step tr) = Returns s"
  shows "train_batches (snd (loop_body env prm g step tr)) = 1 \<and>
         train_calls (snd (loop_body env prm g step tr)) = 1"
proof -
  from assms obtain u where t: "fst (train_step env step tr) = Returns u"
    by (cases "fst (train_step env step tr)") (auto simp: loop_body_def fst_andthen)
  from train_step_counts[OF t] show ?thesis
    by (simp add: loop_body_def snd_andthen t counts_append ret_apply counts_Nil
          untrained_emits[OF checkpoint_untrained] untrained_emits[OF evaluate_untrained]
          split: result.splits)
qed


lemma warm_up_evals_counts:
  "fst (foreach nms (warm_up_eval env) tr) = Returns u \<Longrightarrow>
     train_batches (snd (foreach nms (warm_up_eval env) tr)) = 0 \<and>
     train_calls (snd (foreach nms (warm_up_eval env) tr)) = 0 \<and>
     eval_calls (snd (foreach nms (warm_up_eval env) tr)) = length nms \<and>
     val_draws (snd (foreach nms (warm_up_eval env) tr)) = nms"
proof (induction nms arbitrary: tr)
  case Nil
  show ?case by (simp add: ret_apply counts_Nil)
next
  case (Cons nm nms)
  from Cons.prems obtain v where v: "fst (warm_up_eval env nm tr) = Returns v"
    and rest: "fst (foreach nms (warm_up_eval env) (tr @ snd (warm_up_eval env nm tr))) = Returns u"
    by (cases "fst (warm_up_eval env nm tr)") (auto simp: fst_andthen)
  from v have one: "snd (warm_up_eval env nm tr) =
      [Call (Get_samples (ValSet nm)) None,
       Call (Eval (case get_samples env tr (Get_samples (ValSet nm)) of Inr b \<Rightarrow> b)) None]"
    by (auto simp: warm_up_eval_def fst_andthen snd_andthen call_apply ret_apply
          split: sum.splits result.splits)
  from Cons.IH[OF rest] show ?case
    by (simp add: snd_andthen v counts_append one counts_Cons counts_Nil)
qed

lemma warm_up_counts:
  assumes "fst (warm_up env prm tr) = Returns u"
  shows "train_batches (snd (warm_up env prm tr)) = 1 \<and>
         train_calls (snd (warm_up env prm tr)) = 1 \<and>
         eval_calls (snd (warm_up env prm tr)) = length (val_set prm) \<and>
         val_draws (snd (warm_up env prm tr)) = map fst (val_set prm)"
proof -
  from assms obtain b l where
    d: "call (Get_samples TrainSet) (get_samples env) tr = (Returns b, [Call (Get_samples TrainSet) None])"
    and t: "call (Train b) (t_train env) (tr @ [Call (Get_samples TrainSet) None]) =
              (Returns l, [Call (Train b) None])"
    by (auto simp: warm_up_def fst_andthen call_apply split: sum.splits result.splits)
  define tr' where "tr' = tr @ [Call (Get_samples TrainSet) None, Call (Train b) None, Print Train_compiled]"
  from assms d t have "fst (foreach (map fst (val_set prm)) (warm_up_eval env) tr') = Returns ()"
    by (auto simp: warm_up_def fst_andthen emit_apply tr'_def split: result.splits)
  from warm_up_evals_counts[OF this] d t show ?thesis
    by (simp add: warm_up_def snd_andthen fst_andthen emit_apply tr'_def counts_append
          counts_Cons counts_Nil split: result.splits)
qed

lemma confirm_new_quiet: "emits quiet (confirm_new env a prm)"
  unfolding confirm_new_def by (intro emits_intros; simp add: quiet_def)
lemma check_pe_quiet: "emits quiet (check_pe prm)"
  unfolding check_pe_def by (intro emits_intros; simp add: quiet_def)
lemma save_or_load_quiet: "emits quiet (save_or_load env prm c)"
  unfolding save_or_load_def load_instead_def Let_def
  by (intro emits_intros; simp add: quiet_def)
lemma make_datasets_quiet: "emits quiet (make_datasets env prm r)"
  unfolding make_datasets_def global_batch_def by (intro emits_intros; simp add: quiet_def)
lemma make_tasks_quiet: "emits quiet (make_tasks env prm)"
  unfolding make_tasks_def by (intro emits_intros; simp add: quiet_def)
lemma build_model_quiet: "emits quiet (call Build_model f)"
  by (intro emits_intros; simp add: quiet_def)
lemma wandb_init_quiet: "emits quiet (call Wandb_init f)"
  by (intro emits_intros; simp add: quiet_def)

lemma prepare_counts:
  assumes "fst (prepare env a prm first tr) = Returns p"
  shows "train_batches (snd (prepare env a prm first tr)) = 1 \<and>
         train_calls (snd (prepare env a prm first tr)) = 1 \<and>
         eval_calls (snd (prepare env a prm first tr)) = length (val_set prm) \<and>
         val_draws (snd (prepare env a prm first tr)) = map fst (val_set prm)"
  using assms
  by (auto simp: prepare_def Let_def fst_andthen snd_andthen counts_append counts_Nil ret_apply
        quiet_emits[OF confirm_new_quiet] quiet_emits[OF check_pe_quiet]
        quiet_emits[OF build_model_quiet] quiet_emits[OF save_or_load_quiet]
        quiet_emits[OF make_datasets_quiet] quiet_emits[OF make_tasks_quiet]
        quiet_emits[OF wandb_init_quiet] warm_up_counts
        split: result.splits prod.splits)



section \<open>The cursor recorded with a checkpoint\<close>

lemma train_step_events:
  "fst (train_step env step tr) = Returns u \<Longrightarrow>
     \<exists>b l. snd (train_step env step tr) =
       [Call (Get_samples TrainSet) None, Call (Train b) None,
        Call (Wandb_log [(''train/loss'', fst l), (''train/last_loss'', snd l)] step) None]"
  by (auto simp: train_step_def fst_andthen snd_andthen call_apply
        split: sum.splits result.splits prod.splits)

lemma checkpoint_events:
  assumes "i < length (snd (checkpoint env prm step tr))"
    and "snd (checkpoint env prm step tr) ! i = Call (Save sa) oc"
  shows "i = 1 \<and> snd (checkpoint env prm step tr) ! 0 = Call (Get_state TrainSet) None \<and>
         (\<exists>state. get_state env tr (Get_state TrainSet) = Inr state \<and>
            sa = checkpoint_save prm step state (step mod keep_every prm \<noteq> 0))"
  using assms
  by (auto simp: checkpoint_def py_mod_def fst_andthen snd_andthen call_apply ret_apply raise_apply
        nth_Cons less_Suc_eq
        split: sum.splits result.splits if_splits nat.splits)

lemma no_save_nth:
  "\<forall>e \<in> set es. save_of e = None \<Longrightarrow> i < length es \<Longrightarrow> es ! i \<noteq> Call (Save sa) oc"
  by (metis nth_mem option.distinct(1) save_of.simps(1))

lemma loop_body_returns_next: "fst (loop_body env prm g step tr) = Returns s \<Longrightarrow> s = step + 1"
  by (auto simp: loop_body_def fst_andthen ret_apply split: result.splits)

lemma loop_body_save:
  assumes i: "i < length (snd (loop_body env prm g step tr))"
    and ev: "snd (loop_body env prm g step tr) ! i = Call (Save sa) oc"
  shows "sv_step sa = step \<and> \<not> sv_init sa \<and>
         train_batches (take i (snd (loop_body env prm g step tr))) = 1 \<and> 0 < i \<and>
         snd (loop_body env prm g step tr) ! (i - 1) = Call (Get_state TrainSet) None \<and>
         (\<exists>state. get_state env (tr @ take (i - 1) (snd (loop_body env prm g step tr)))
                     (Get_state TrainSet) = Inr state \<and>
            sv_aux sa = Some [(''train_loader'', state)])"
proof -
  define T where "T = snd (train_step env step tr)"
  have noT: "\<forall>e \<in> set T. save_of e = None"
    unfolding T_def by (rule emits_ball[OF train_step_no_save])
  show ?thesis
  proof (cases "fst (train_step env step tr)")
    case (Returns u)
    define C where "C = snd (checkpoint env prm step (tr @ T))"
    define E where "E = (case fst (checkpoint env prm step (tr @ T)) of
        Returns v \<Rightarrow> snd (evaluate env prm g step (tr @ T @ C)) | _ \<Rightarrow> [])"
    have es: "snd (loop_body env prm g step tr) = T @ C @ E"
      by (simp add: loop_body_def snd_andthen Returns T_def C_def E_def ret_apply
            split: result.splits)
    have noE: "\<forall>e \<in> set E. save_of e = None"
      unfolding E_def using emits_ball[OF evaluate_no_save, of env prm g step "tr @ T @ C"]
      by (simp split: result.splits)
    from train_step_events[OF Returns] obtain b l where
      T: "T = [Call (Get_samples TrainSet) None, Call (Train b) None,
               Call (Wandb_log [(''train/loss'', fst l), (''train/last_loss'', snd l)] step) None]"
      unfolding T_def by blast
    have lenT: "length T = 3" by (simp add: T)
    have i3: "\<not> i < 3"
    proof
      assume "i < 3"
      with noT lenT have "T ! i \<noteq> Call (Save sa) oc"
        by (intro no_save_nth) simp_all
      with ev \<open>i < 3\<close> lenT show False
        by (simp add: es nth_append)
    qed
    have inC: "i - 3 < length C"
    proof (rule ccontr)
      assume out: "\<not> i - 3 < length C"
      with i i3 have "i - 3 - length C < length E"
        by (simp add: es lenT)
      with noE have "E ! (i - 3 - length C) \<noteq> Call (Save sa) oc"
        by (intro no_save_nth) simp_all
      with ev i3 out lenT show False
        by (simp add: es nth_append)
    qed
    have evC: "C ! (i - 3) = Call (Save sa) oc"
      using ev i3 inC lenT by (simp add: es nth_append)
    from checkpoint_events[OF inC[unfolded C_def] evC[unfolded C_def]] obtain state where
      i4: "i - 3 = 1" and c0: "C ! 0 = Call (Get_state TrainSet) None"
      and st: "get_state env (tr @ T) (Get_state TrainSet) = Inr state"
      and sa: "sa = checkpoint_save prm step state (step mod keep_every prm \<noteq> 0)"
      unfolding C_def by blast
    from i4 i3 have i: "i = 4" by simp
    from inC i have lenC: "1 < length C" by simp
    then have t1: "take (Suc 0) C = [C ! 0]"
      by (cases C) simp_all
    have take3: "take 3 (T @ C @ E) = T" and take4: "take 4 (T @ C @ E) = T @ [C ! 0]"
      using lenT lenC t1 by simp_all
    have nth3: "(T @ C @ E) ! 3 = C ! 0"
      using lenT lenC by (auto simp: nth_append)
    have tb: "train_batches T = 1"
      by (simp add: T counts_Cons counts_Nil)
    have i1: "i - 1 = 3"
      using i by simp
    have r1: "take i (snd (loop_body env prm g step tr)) = T @ [C ! 0]"
      unfolding es i by (rule take4)
    have r2: "snd (loop_body env prm g step tr) ! (i - 1) = C ! 0"
      unfolding es i1 by (rule nth3)
    have r3: "take (i - 1) (snd (loop_body env prm g step tr)) = T"
      unfolding es i1 by (rule take3)
    have i0: "0 < i"
      using i by simp
    show ?thesis
    proof (intro conjI)
      show "sv_step sa = step" "\<not> sv_init sa"
        by (simp_all add: sa checkpoint_save_def)
      show "train_batches (take i (snd (loop_body env prm g step tr))) = 1"
        by (simp add: r1 counts_append counts_Cons counts_Nil tb c0)
      show "0 < i"
        by (rule i0)
      show "snd (loop_body env prm g step tr) ! (i - 1) = Call (Get_state TrainSet) None"
        unfolding r2 by (rule c0)
      show "\<exists>state. get_state env (tr @ take (i - 1) (snd (loop_body env prm g step tr)))
                     (Get_state TrainSet) = Inr state \<and>
            sv_aux sa = Some [(''train_loader'', state)]"
        unfolding r3 using st by (simp add: sa checkpoint_save_def)
    qed
  next
    case (Raises e)
    then have "snd (loop_body env prm g step tr) = T"
      by (simp add: loop_body_def snd_andthen T_def)
    with noT i ev show ?thesis
      using no_save_nth by metis
  next
    case Running
    then have "snd (loop_body env prm g step tr) = T"
      by (simp add: loop_body_def snd_andthen T_def)
    with noT i ev show ?thesis
      using no_save_nth by metis
  qed
qed

lemma step_loop_save:
  "i < length (snd (step_loop n env prm g s0 tr)) \<Longrightarrow>
   snd (step_loop n env prm g s0 tr) ! i = Call (Save sa) oc \<Longrightarrow>
     s0 \<le> sv_step sa \<and> \<not> sv_init sa \<and>
     train_batches (take i (snd (step_loop n env prm g s0 tr))) = nat (sv_step sa - s0) + 1 \<and>
     0 < i \<and>
     snd (step_loop n env prm g s0 tr) ! (i - 1) = Call (Get_state TrainSet) None \<and>
     (\<exists>state. get_state env (tr @ take (i - 1) (snd (step_loop n env prm g s0 tr)))
                 (Get_state TrainSet) = Inr state \<and>
        sv_aux sa = Some [(''train_loader'', state)])"
proof (induction n arbitrary: s0 tr i)
  case 0
  then show ?case by (simp add: spin_def)
next
  case (Suc n)
  define B where "B = snd (loop_body env prm g s0 tr)"
  define R where "R = (case fst (loop_body env prm g s0 tr) of
      Returns s \<Rightarrow> snd (step_loop n env prm g s (tr @ B)) | _ \<Rightarrow> [])"
  have es: "snd (step_loop (Suc n) env prm g s0 tr) = B @ R"
    by (simp add: snd_andthen B_def R_def split: result.splits)
  have p1: "i < length (B @ R)"
    using Suc.prems(1) unfolding es .
  have p2: "(B @ R) ! i = Call (Save sa) oc"
    using Suc.prems(2) unfolding es .
  show ?case
  proof (cases "i < length B")
    case True
    then have evB: "B ! i = Call (Save sa) oc"
      using p2 by (simp add: nth_append)
    from loop_body_save[OF True[unfolded B_def] evB[unfolded B_def]]
    have A: "sv_step sa = s0" "\<not> sv_init sa" "train_batches (take i B) = 1" "0 < i"
      "B ! (i - 1) = Call (Get_state TrainSet) None"
      "\<exists>state. get_state env (tr @ take (i - 1) B) (Get_state TrainSet) = Inr state \<and>
          sv_aux sa = Some [(''train_loader'', state)]"
      unfolding B_def by simp_all
    have t1: "take i (B @ R) = take i B" and t2: "take (i - 1) (B @ R) = take (i - 1) B"
      and n1: "(B @ R) ! (i - 1) = B ! (i - 1)"
      using True by (auto simp: nth_append)
    show ?thesis
      unfolding es t1 t2 n1 using A by simp
  next
    case False
    define j where "j = i - length B"
    have ij: "i = length B + j"
      using False by (simp add: j_def)
    have Rne: "j < length R"
      using p1 False by (simp add: j_def)
    then obtain s where s: "fst (loop_body env prm g s0 tr) = Returns s"
      by (cases "fst (loop_body env prm g s0 tr)") (simp_all add: R_def)
    then have R: "R = snd (step_loop n env prm g (s0 + 1) (tr @ B))"
      using loop_body_returns_next[OF s] by (simp add: R_def)
    have evR: "R ! j = Call (Save sa) oc"
      using p2 False by (simp add: nth_append j_def)
    from Suc.IH[OF Rne[unfolded R] evR[unfolded R]]
    have IH: "s0 + 1 \<le> sv_step sa" "\<not> sv_init sa"
      "train_batches (take j R) = nat (sv_step sa - (s0 + 1)) + 1" "0 < j"
      "R ! (j - 1) = Call (Get_state TrainSet) None"
      "\<exists>state. get_state env ((tr @ B) @ take (j - 1) R) (Get_state TrainSet) = Inr state \<and>
          sv_aux sa = Some [(''train_loader'', state)]"
      unfolding R by simp_all
    have B1: "train_batches B = 1"
      using loop_body_counts[OF s] by (simp add: B_def)
    have t1: "take i (B @ R) = B @ take j R" and t2: "take (i - 1) (B @ R) = B @ take (j - 1) R"
      and n1: "(B @ R) ! (i - 1) = R ! (j - 1)"
      using IH(4) by (auto simp: ij nth_append)
    have cnt: "train_batches (B @ take j R) = nat (sv_step sa - s0) + 1"
      using IH(1) by (simp add: counts_append B1 IH(3) nat_diff_distrib)
    show ?thesis
      unfolding es t1 t2 n1 using IH cnt by (simp add: ij)
  qed
qed

lemma no_save_init: "save_of e = None \<Longrightarrow> \<forall>sa. save_of e = Some sa \<longrightarrow> sv_init sa"
  by simp

lemma save_or_load_saves_init:
  "emits (\<lambda>e. \<forall>sa. save_of e = Some sa \<longrightarrow> sv_init sa) (save_or_load env prm c)"
  unfolding save_or_load_def load_instead_def Let_def
  by (intro emits_intros; simp add: initial_save_def)

lemma prepare_saves_init:
  "emits (\<lambda>e. \<forall>sa. save_of e = Some sa \<longrightarrow> sv_init sa) (prepare env a prm first)"
  unfolding prepare_def Let_def
  by (intro emits_intros save_or_load_saves_init
        emits_mono[OF confirm_new_no_save no_save_init]
        emits_mono[OF check_pe_no_save no_save_init]
        emits_mono[OF make_datasets_no_save no_save_init]
        emits_mono[OF make_tasks_no_save no_save_init]
        emits_mono[OF warm_up_no_save no_save_init]; simp)

lemma checkpoints_written_Nil: "checkpoints_written [] = []"
  by (simp add: checkpoints_written_def List.map_filter_def)
lemma checkpoints_written_Cons:
  "checkpoints_written (e # es) =
     (case written_of e of None \<Rightarrow> checkpoints_written es | Some c \<Rightarrow> c # checkpoints_written es)"
  by (simp add: checkpoints_written_def List.map_filter_def split: option.splits)

text \<open>
  C7, as the claim states it, fails. The run below is on the provider and the storage
  of the specification, with \<open>ckpt_every = 1\<close>. The first attempt writes the
  checkpoint of step 1 with cursor 3 and then fails; the second attempt loads step 1 and
  cursor 3, draws a batch for its warm-up call and another for the iteration of step 1,
  and writes the checkpoint of step 1 again, now with cursor 5. The cursor is not the
  step, and one and the same step is recorded with two cursors.
\<close>

theorem cursor_skew_counterexample:
  "checkpoints_written
     (snd (script 2 3 (world (faults [(32, PyException ''boom''), (52, KeyboardInterrupt)]))
        (args0 False) (params0 1 5 1000) [])) =
     [(1, Some 3), (1, Some 5)]"
  by (simp add: run_simps world_simps checkpoints_written_Cons checkpoints_written_Nil)

text \<open>
  C7, amended. Every checkpoint the step loop writes carries the auxiliary payload
  \<open>{"train_loader": state}\<close> where \<open>state\<close> is what
  \<open>train_dataset.get_state()\<close> returned in the call just before the save, in the
  same iteration and after that iteration's batch was drawn. The snapshot is not aligned
  with the step: when the checkpoint of step \<open>s\<close> is written in an attempt that
  started at step \<open>s0\<close>, the attempt has drawn \<open>s - s0 + 2\<close> training batches,
  one before the loop and one in every iteration up to this one.
\<close>

theorem snapshot_ahead_of_step:
  assumes "prepare env a prm first tr = (Returns (s0, g), es0)"
    and "main n env a prm first tr = (r, es)"
    and "i < length es" and "es ! i = Call (Save sa) oc" and "\<not> sv_init sa"
  shows "s0 \<le> sv_step sa \<and>
         train_batches (take i es) = nat (sv_step sa - s0) + 2 \<and>
         0 < i \<and> es ! (i - 1) = Call (Get_state TrainSet) None \<and>
         (\<exists>state. get_state env (tr @ take (i - 1) es) (Get_state TrainSet) = Inr state \<and>
            sv_aux sa = Some [(''train_loader'', state)])"
proof -
  define L where "L = snd (step_loop n env prm g s0 (tr @ es0))"
  have p: "fst (prepare env a prm first tr) = Returns (s0, g)"
    and es0: "es0 = snd (prepare env a prm first tr)"
    using assms(1) by simp_all
  have es: "es = es0 @ L"
    using assms(2) by (simp add: main_def andthen_apply assms(1) L_def split: prod.splits)
  have init0: "\<forall>e \<in> set es0. \<forall>sa. save_of e = Some sa \<longrightarrow> sv_init sa"
    unfolding es0 by (rule emits_ball[OF prepare_saves_init])
  have out: "\<not> i < length es0"
  proof
    assume "i < length es0"
    then have "es0 ! i = Call (Save sa) oc"
      using assms(4) by (simp add: es nth_append)
    with \<open>i < length es0\<close> have "Call (Save sa) oc \<in> set es0"
      by (metis nth_mem)
    with init0 have "sv_init sa" by fastforce
    with assms(5) show False by simp
  qed
  define j where "j = i - length es0"
  have ij: "i = length es0 + j"
    using out by (simp add: j_def)
  have jL: "j < length L" and evL: "L ! j = Call (Save sa) oc"
    using assms(3,4) out by (simp_all add: es nth_append j_def)
  from step_loop_save[OF jL[unfolded L_def] evL[unfolded L_def]]
  have S: "s0 \<le> sv_step sa" "train_batches (take j L) = nat (sv_step sa - s0) + 1" "0 < j"
    "L ! (j - 1) = Call (Get_state TrainSet) None"
    "\<exists>state. get_state env ((tr @ es0) @ take (j - 1) L) (Get_state TrainSet) = Inr state \<and>
        sv_aux sa = Some [(''train_loader'', state)]"
    unfolding L_def by simp_all
  have c0: "train_batches es0 = 1"
    using prepare_counts[OF p] by (simp add: es0)
  have t1: "take i (es0 @ L) = es0 @ take j L"
    and t2: "take (i - 1) (es0 @ L) = es0 @ take (j - 1) L"
    and n1: "(es0 @ L) ! (i - 1) = L ! (j - 1)"
    using S(3) by (auto simp: ij nth_append)
  show ?thesis
    unfolding es t1 t2 n1 using S c0 by (simp add: ij counts_append)
qed

theorem snapshot_ahead_of_step_witness:
  "fst (prepare (world no_fault) (args0 False) (params0 1 5 1000) True []) = Returns (0, 1) \<and>
   snd (main 2 (world no_fault) (args0 False) (params0 1 5 1000) True []) ! 31 =
     Call (Save (checkpoint_save (params0 1 5 1000) 1 (Some 3) True)) None \<and>
   train_batches (take 31 (snd (main 2 (world no_fault) (args0 False) (params0 1 5 1000) True []))) = 3"
proof -
  have p: "prepare (world no_fault) (args0 False) (params0 1 5 1000) True [] =
      (Returns (0, 1), snd (prepare (world no_fault) (args0 False) (params0 1 5 1000) True []))"
    by (simp add: run_simps world_simps)
  have m: "main 2 (world no_fault) (args0 False) (params0 1 5 1000) True [] =
      (Running, snd (main 2 (world no_fault) (args0 False) (params0 1 5 1000) True []))"
    by (simp add: run_simps world_simps)
  have len: "31 < length (snd (main 2 (world no_fault) (args0 False) (params0 1 5 1000) True []))"
    by (simp add: run_simps world_simps)
  have ev: "snd (main 2 (world no_fault) (args0 False) (params0 1 5 1000) True []) ! 31 =
     Call (Save (checkpoint_save (params0 1 5 1000) 1 (Some 3) True)) None"
    by (simp add: run_simps world_simps)
  have ni: "\<not> sv_init (checkpoint_save (params0 1 5 1000) 1 (Some (3::nat)) True)"
    by (simp add: checkpoint_save_def)
  have st: "sv_step (checkpoint_save (params0 1 5 1000) 1 (Some (3::nat)) True) = 1"
    by (simp add: checkpoint_save_def)
  have fp: "fst (prepare (world no_fault) (args0 False) (params0 1 5 1000) True []) = Returns (0, 1)"
    using p by (metis fst_conv)
  from snapshot_ahead_of_step[OF p m len ev ni] fp ev st show ?thesis
    by simp
qed

section \<open>Checkpoint retention\<close>

text \<open>
  On the storage of the specification, an initial save with \<open>overwrite=False\<close>
  leaves a store that holds a checkpoint as it is, whatever the call reports. A
  checkpoint written by the step loop at step \<open>s'\<close> carries
  \<open>delete_old = (s' % keep_every != 0)\<close>, so the checkpoint before it stays exactly
  when the new step \<open>s'\<close> is a multiple of \<open>keep_every\<close>, whatever its own step.
\<close>

lemma initial_save_keeps_store:
  "st \<noteq> [] \<Longrightarrow> store_event (Call (Save (initial_save prm False)) oc) st = st"
  by (cases oc) (simp_all add: store_save_def initial_save_def)

lemma store_retention:
  "store_save (checkpoint_save prm s' state (s' mod keep_every prm \<noteq> 0)) (st @ [c]) =
     Inr (if s' mod keep_every prm = 0
          then st @ [c, (s', [(''train_loader'', state)])]
          else st @ [(s', [(''train_loader'', state)])])"
  by (simp add: store_save_def checkpoint_save_def)


end
